theory Spec2Isabelle
  imports Main
begin

section \<open>Errors\<close>

text \<open>
  A Go \<open>error\<close> value is \<open>nil\<close> or an error; it is modelled as \<open>error option\<close>.
  The package makes two kinds of error itself: the package variable
  \<open>errProcStopTimeout\<close> (one call of \<open>errors.New\<close>) and the value \<open>fmt.Errorf\<close>
  builds in \<open>closeProc\<close>. Every other error comes from the streams, the command or the
  process handle; the constructor records where a value was made, as Go compares errors
  by identity and not by message.
\<close>

datatype error =
    ErrorsNew string
  | FmtErrorf string
  | Foreign string

fun Error :: "error \<Rightarrow> string" where
  "Error (ErrorsNew m) = m"
| "Error (FmtErrorf m) = m"
| "Error (Foreign m) = m"

definition errProcStopTimeout :: error where
  "errProcStopTimeout = ErrorsNew ''process killed after timeout waiting for process to stop''"

section \<open>The world and the trace of calls\<close>

text \<open>
  The streams, the command and the process handle are interface values: what their
  methods do is not part of the package. A method is a function on a world \<open>'w\<close> that
  returns its result and the new world. The model also keeps the trace of the calls the
  package makes, each with the error the call returned, in the order they happen.
\<close>

datatype event =
    StdinPipeCall "error option"
  | StdoutPipeCall "error option"
  | StartCall "error option"
  | InClose "error option"
  | OutClose "error option"
  | ReadCloserClose "error option"
  | WriteCloserClose "error option"
  | WaitCall
  | WaitReturn "error option"
  | Send "error option"
  | SignalCall "error option"
  | Receive "error option"
  | Timeout
  | KillCall "error option"

record 'w st =
  world :: 'w
  trace :: "event list"

type_synonym 'w closer = "'w \<Rightarrow> error option \<times> 'w"

definition call_Close :: "(error option \<Rightarrow> event) \<Rightarrow> 'w closer \<Rightarrow> 'w st \<Rightarrow> error option \<times> 'w st" where
  "call_Close ev c s =
     (let (err, w) = c (world s)
      in (err, \<lparr>world = w, trace = trace s @ [ev err]\<rparr>))"

section \<open>rwCloser\<close>

record 'w rwCloser =
  rw_ReadCloser :: "'w closer"
  rw_WriteCloser :: "'w closer"

text \<open>
  \<open>rwCloser.Close\<close>: the inner \<open>err\<close> of the \<open>if\<close> statement shadows the outer one.
\<close>

definition rwCloser_Close :: "'w rwCloser \<Rightarrow> 'w st \<Rightarrow> error option \<times> 'w st" where
  "rwCloser_Close rw s0 =
     (let (err, s1) = call_Close ReadCloserClose (rw_ReadCloser rw) s0;
          (err', s2) = call_Close WriteCloserClose (rw_WriteCloser rw) s1
      in if err' \<noteq> None then (err', s2) else (err, s2))"

section \<open>The process handle and ioPipe\<close>

datatype os_Signal = os_Interrupt | os_Kill

text \<open>
  \<open>osProcess\<close>. \<open>Wait\<close> blocks until the process has exited: in a world where the call
  cannot return yet its value is \<open>None\<close>. The \<open>*os.ProcessState\<close> it returns is
  dropped by the only caller and is left out.
\<close>

record 'w osProcess =
  Wait :: "'w \<Rightarrow> (error option \<times> 'w) option"
  Kill :: "'w \<Rightarrow> error option \<times> 'w"
  Signal :: "os_Signal \<Rightarrow> 'w \<Rightarrow> error option \<times> 'w"

record 'w ioPipe =
  ReadCloser :: "'w closer"
  WriteCloser :: "'w closer"
  proc :: "'w osProcess"

section \<open>closeProc\<close>

text \<open>
  \<open>closeProc\<close> runs two threads: the caller, and the goroutine that calls \<open>Wait\<close> and
  sends the error on the channel \<open>result\<close> (capacity one). The model is a machine with
  one program counter for each, the buffer of the channel, and the flag of the timer
  that \<open>time.After(procTimeout)\<close> starts when the caller enters the \<open>select\<close>.
  A schedule, a list of choices, says which thread moves next; \<open>select\<close> with both
  cases ready may take either. Time is not modelled: once the caller is in the
  \<open>select\<close> the timer may fire at any moment, so the machine has every run of the
  code for every value of \<open>procTimeout\<close>.

  The caller is at one of:
  \<^item> \<open>M_signal\<close>: about to call \<open>iop.proc.Signal(os.Interrupt)\<close>, whose error, when not
    nil, it returns at once;
  \<^item> \<open>M_select\<close>: in the \<open>select\<close>, blocked until a case is ready;
  \<^item> \<open>M_kill\<close>: in the timeout case, about to call \<open>iop.proc.Kill()\<close>;
  \<^item> \<open>M_return err\<close>: returned \<open>err\<close>.

  The goroutine \<open>go func() { _, err := iop.proc.Wait(); result <- err }()\<close> is at one of:
  \<^item> \<open>G_call\<close>: started, about to call \<open>Wait\<close>;
  \<^item> \<open>G_in_Wait\<close>: inside \<open>Wait\<close>, until it returns;
  \<^item> \<open>G_send err\<close>: \<open>Wait\<close> returned \<open>err\<close>, about to send it, blocked while the buffer is full;
  \<^item> \<open>G_done\<close>: finished.

  The choices: \<open>RunMain\<close> is the caller's next call (\<open>Signal\<close> or \<open>Kill\<close>),
  \<open>SelectResult\<close> the case \<open>err := <-result\<close>, \<open>SelectTimeout\<close> the case
  \<open><-time.After(procTimeout)\<close>, \<open>RunWaiter\<close> the goroutine's next step, and \<open>FireTimer\<close>
  the moment the timeout elapses.
\<close>

datatype main_pc =
    M_signal
  | M_select
  | M_kill
  | M_return "error option"

datatype waiter_pc =
    G_call
  | G_in_Wait
  | G_send "error option"
  | G_done

record 'w cp = "'w st" +
  main :: main_pc
  waiter :: waiter_pc
  result :: "error option list"
  timer :: bool

datatype choice =
    RunMain
  | SelectResult
  | SelectTimeout
  | RunWaiter
  | FireTimer

text \<open>\<open>fmt.Errorf("error killing process after timeout: %s", err)\<close>: the verb \<open>%s\<close>
  prints the message of \<open>err\<close>.\<close>

definition fmt_Errorf_kill :: "error \<Rightarrow> error" where
  "fmt_Errorf_kill err = FmtErrorf (''error killing process after timeout: '' @ Error err)"

text \<open>The state after \<open>make(chan error, 1)\<close> and the \<open>go\<close> statement.\<close>

definition spawn :: "'w st \<Rightarrow> 'w cp" where
  "spawn s = \<lparr>world = world s, trace = trace s,
              main = M_signal, waiter = G_call, result = [], timer = False\<rparr>"

definition main_step :: "'w ioPipe \<Rightarrow> 'w cp \<Rightarrow> 'w cp option" where
  "main_step iop s =
     (case main s of
        M_signal \<Rightarrow>
          (let (err, w) = Signal (proc iop) os_Interrupt (world s)
           in Some (s\<lparr>world := w, trace := trace s @ [SignalCall err],
                      main := (if err \<noteq> None then M_return err else M_select)\<rparr>))
      | M_kill \<Rightarrow>
          (let (err, w) = Kill (proc iop) (world s)
           in Some (s\<lparr>world := w, trace := trace s @ [KillCall err],
                      main := (case err of
                                 Some e \<Rightarrow> M_return (Some (fmt_Errorf_kill e))
                               | None \<Rightarrow> M_return (Some errProcStopTimeout))\<rparr>))
      | _ \<Rightarrow> None)"

definition select_result :: "'w cp \<Rightarrow> 'w cp option" where
  "select_result s =
     (case (main s, result s) of
        (M_select, err # rest) \<Rightarrow>
          Some (s\<lparr>trace := trace s @ [Receive err], result := rest, main := M_return err\<rparr>)
      | _ \<Rightarrow> None)"

definition select_timeout :: "'w cp \<Rightarrow> 'w cp option" where
  "select_timeout s =
     (if main s = M_select \<and> timer s
      then Some (s\<lparr>trace := trace s @ [Timeout], main := M_kill\<rparr>)
      else None)"

definition fire_timer :: "'w cp \<Rightarrow> 'w cp option" where
  "fire_timer s =
     (if main s = M_select \<and> \<not> timer s then Some (s\<lparr>timer := True\<rparr>) else None)"

definition waiter_step :: "'w ioPipe \<Rightarrow> 'w cp \<Rightarrow> 'w cp option" where
  "waiter_step iop s =
     (case waiter s of
        G_call \<Rightarrow> Some (s\<lparr>trace := trace s @ [WaitCall], waiter := G_in_Wait\<rparr>)
      | G_in_Wait \<Rightarrow>
          (case Wait (proc iop) (world s) of
             None \<Rightarrow> None
           | Some (err, w) \<Rightarrow>
               Some (s\<lparr>world := w, trace := trace s @ [WaitReturn err], waiter := G_send err\<rparr>))
      | G_send err \<Rightarrow>
          (if length (result s) < 1
           then Some (s\<lparr>trace := trace s @ [Send err], result := result s @ [err],
                        waiter := G_done\<rparr>)
           else None)
      | G_done \<Rightarrow> None)"

fun step :: "'w ioPipe \<Rightarrow> choice \<Rightarrow> 'w cp \<Rightarrow> 'w cp option" where
  "step iop RunMain s = main_step iop s"
| "step iop SelectResult s = select_result s"
| "step iop SelectTimeout s = select_timeout s"
| "step iop RunWaiter s = waiter_step iop s"
| "step iop FireTimer s = fire_timer s"

fun exec :: "'w ioPipe \<Rightarrow> choice list \<Rightarrow> 'w cp \<Rightarrow> 'w cp option" where
  "exec iop [] s = Some s"
| "exec iop (c # cs) s =
     (case step iop c s of None \<Rightarrow> None | Some s' \<Rightarrow> exec iop cs s')"

text \<open>
  \<open>closeProc\<close> under a schedule: the error the caller returns and the state of the
  machine then, or \<open>None\<close> when the schedule asks for a step that cannot be taken or
  ends before the caller has returned.
\<close>

definition closeProc :: "'w ioPipe \<Rightarrow> choice list \<Rightarrow> 'w st \<Rightarrow> (error option \<times> 'w cp) option" where
  "closeProc iop sched s =
     (case exec iop sched (spawn s) of
        None \<Rightarrow> None
      | Some s' \<Rightarrow> (case main s' of M_return err \<Rightarrow> Some (err, s') | _ \<Rightarrow> None))"

section \<open>ioPipe.Close\<close>

text \<open>\<open>ioPipe.Close\<close> under a schedule for its call of \<open>closeProc\<close>.\<close>

definition Close :: "'w ioPipe \<Rightarrow> choice list \<Rightarrow> 'w st \<Rightarrow> (error option \<times> 'w cp) option" where
  "Close iop sched s0 =
     (let (err, s1) = call_Close ReadCloserClose (ReadCloser iop) s0;
          (writeErr, s2) = call_Close WriteCloserClose (WriteCloser iop) s1;
          err = (if writeErr \<noteq> None then writeErr else err)
      in case closeProc iop sched s2 of
           None \<Rightarrow> None
         | Some (procErr, s3) \<Rightarrow> Some (if procErr \<noteq> None then procErr else err, s3))"

section \<open>start\<close>

text \<open>
  \<open>commander\<close>. \<open>StdinPipe\<close> and \<open>StdoutPipe\<close> return a pipe and an error; \<open>start\<close> looks at
  the pipe only when the error is nil, so the pair is a sum. Of a pipe only \<open>Close\<close> is
  used here.
\<close>

record 'w commander =
  StdinPipe :: "'w \<Rightarrow> (error + 'w closer) \<times> 'w"
  StdoutPipe :: "'w \<Rightarrow> (error + 'w closer) \<times> 'w"
  Start :: "'w \<Rightarrow> error option \<times> 'w"

definition call_Pipe ::
  "(error option \<Rightarrow> event) \<Rightarrow> ('w \<Rightarrow> (error + 'w closer) \<times> 'w) \<Rightarrow> 'w st \<Rightarrow> (error + 'w closer) \<times> 'w st" where
  "call_Pipe ev f s =
     (let (r, w) = f (world s)
      in (r, \<lparr>world = w, trace = trace s @ [ev (case r of Inl e \<Rightarrow> Some e | Inr _ \<Rightarrow> None)]\<rparr>))"

definition call_Start :: "'w commander \<Rightarrow> 'w st \<Rightarrow> error option \<times> 'w st" where
  "call_Start cmd s =
     (let (err, w) = Start cmd (world s)
      in (err, \<lparr>world = w, trace = trace s @ [StartCall err]\<rparr>))"

text \<open>
  A deferred function of \<open>start\<close>: it reads the named result \<open>err\<close> when the function
  returns, closes its pipe when \<open>err\<close> is not \<open>nil\<close>, and drops what \<open>Close\<close> returns.
  Deferred functions run last in, first out.
\<close>

definition deferred_Close :: "(error option \<Rightarrow> event) \<Rightarrow> 'w closer \<Rightarrow> error option \<Rightarrow> 'w st \<Rightarrow> 'w st" where
  "deferred_Close ev c err s = (if err \<noteq> None then snd (call_Close ev c s) else s)"

fun run_deferred :: "(error option \<Rightarrow> 'w st \<Rightarrow> 'w st) list \<Rightarrow> error option \<Rightarrow> 'w st \<Rightarrow> 'w st" where
  "run_deferred [] err s = s"
| "run_deferred (d # ds) err s = run_deferred ds err (d err s)"

definition start :: "'w commander \<Rightarrow> 'w osProcess \<Rightarrow> 'w st \<Rightarrow> (error + 'w ioPipe) \<times> 'w st" where
  "start cmd p s0 =
     (case call_Pipe StdinPipeCall (StdinPipe cmd) s0 of
        (Inl err, s1) \<Rightarrow> (Inl err, run_deferred [] (Some err) s1)
      | (Inr inp, s1) \<Rightarrow>
          (let ds1 = [deferred_Close InClose inp]
           in case call_Pipe StdoutPipeCall (StdoutPipe cmd) s1 of
                (Inl err, s2) \<Rightarrow> (Inl err, run_deferred ds1 (Some err) s2)
              | (Inr out, s2) \<Rightarrow>
                  (let ds2 = deferred_Close OutClose out # ds1
                   in case call_Start cmd s2 of
                        (Some err, s3) \<Rightarrow> (Inl err, run_deferred ds2 (Some err) s3)
                      | (None, s3) \<Rightarrow>
                          (Inr \<lparr>ReadCloser = out, WriteCloser = inp, proc = p\<rparr>,
                           run_deferred ds2 None s3))))"

section \<open>Launching through os/exec\<close>

text \<open>
  \<open>makeCommand\<close> builds an \<open>*exec.Cmd\<close> and hands it to \<open>start\<close> as the
  \<open>commander\<close>, together with the value of its field \<open>Process\<close> as the \<open>osProcess\<close>.
  The \<open>Cmd\<close> lives in a heap of the world, as \<open>Start\<close> writes its field \<open>Process\<close>
  later; a \<open>*os.Process\<close> is \<open>pid option\<close>, with \<open>None\<close> for the nil pointer.
  What the methods of \<open>*exec.Cmd\<close> and \<open>*os.Process\<close> do belongs to the Go library and
  is a parameter, the record \<open>stdlib\<close>. \<open>exec.Command\<close> is the library's constructor:
  it fills in the path and the arguments and leaves every other field zero.
\<close>

type_synonym pid = nat
type_synonym writer = nat

record Cmd =
  Path :: string
  Args :: "string list"
  Stderr :: "writer option"
  Process :: "pid option"

record 'x sys =
  cmds :: "Cmd list"
  os :: 'x

record 'x stdlib =
  Cmd_StdinPipe :: "nat \<Rightarrow> 'x sys \<Rightarrow> (error + 'x sys closer) \<times> 'x sys"
  Cmd_StdoutPipe :: "nat \<Rightarrow> 'x sys \<Rightarrow> (error + 'x sys closer) \<times> 'x sys"
  Cmd_Start :: "nat \<Rightarrow> 'x sys \<Rightarrow> error option \<times> 'x sys"
  Process_Wait :: "pid option \<Rightarrow> 'x sys \<Rightarrow> (error option \<times> 'x sys) option"
  Process_Kill :: "pid option \<Rightarrow> 'x sys \<Rightarrow> error option \<times> 'x sys"
  Process_Signal :: "pid option \<Rightarrow> os_Signal \<Rightarrow> 'x sys \<Rightarrow> error option \<times> 'x sys"

definition exec_Command :: "string \<Rightarrow> string list \<Rightarrow> 'x sys \<Rightarrow> nat \<times> 'x sys" where
  "exec_Command name arg w =
     (length (cmds w),
      w\<lparr>cmds := cmds w @ [\<lparr>Path = name, Args = name # arg, Stderr = None, Process = None\<rparr>]\<rparr>)"

text \<open>The interface values made from a \<open>*exec.Cmd\<close> and from a \<open>*os.Process\<close>.\<close>

definition Cmd_commander :: "'x stdlib \<Rightarrow> nat \<Rightarrow> 'x sys commander" where
  "Cmd_commander lib c =
     \<lparr>StdinPipe = Cmd_StdinPipe lib c, StdoutPipe = Cmd_StdoutPipe lib c, Start = Cmd_Start lib c\<rparr>"

definition Process_osProcess :: "'x stdlib \<Rightarrow> pid option \<Rightarrow> 'x sys osProcess" where
  "Process_osProcess lib p =
     \<lparr>Wait = Process_Wait lib p, Kill = Process_Kill lib p, Signal = Process_Signal lib p\<rparr>"

definition makeCommand ::
  "'x stdlib \<Rightarrow> writer \<Rightarrow> string \<Rightarrow> string list \<Rightarrow> 'x sys
     \<Rightarrow> ('x sys commander \<times> 'x sys osProcess) \<times> 'x sys" where
  "makeCommand lib w path args w0 =
     (let (cmd, w1) = exec_Command path args w0;
          w2 = w1\<lparr>cmds := (cmds w1)[cmd := (cmds w1 ! cmd)\<lparr>Stderr := Some w\<rparr>]\<rparr>
      in ((Cmd_commander lib cmd, Process_osProcess lib (Process (cmds w2 ! cmd))), w2))"

text \<open>
  The clients and servers of \<open>net/rpc\<close> are outside the package: a client is the
  constructor applied to the channel (or to the codec made from it).
\<close>

datatype ('c, 'k) rpc_Client = rpc_NewClient 'c | rpc_NewClientWithCodec 'k

datatype rpc_Server = rpc_NewServer

record 'c Provider =
  server :: "rpc_Server option"
  rwc :: "'c option"

definition StartProvider ::
  "'x stdlib \<Rightarrow> writer \<Rightarrow> string \<Rightarrow> string list \<Rightarrow> 'x sys st
     \<Rightarrow> (error + ('x sys ioPipe, 'k) rpc_Client) \<times> 'x sys st" where
  "StartProvider lib output path args s =
     (let ((cmd, p), w) = makeCommand lib output path args (world s)
      in case start cmd p (s\<lparr>world := w\<rparr>) of
           (Inl err, s') \<Rightarrow> (Inl err, s')
         | (Inr c, s') \<Rightarrow> (Inr (rpc_NewClient c), s'))"

definition StartProviderCodec ::
  "'x stdlib \<Rightarrow> ('x sys ioPipe \<Rightarrow> 'k) \<Rightarrow> writer \<Rightarrow> string \<Rightarrow> string list \<Rightarrow> 'x sys st
     \<Rightarrow> (error + ('x sys ioPipe, 'k) rpc_Client) \<times> 'x sys st" where
  "StartProviderCodec lib f output path args s =
     (let ((cmd, p), w) = makeCommand lib output path args (world s)
      in case start cmd p (s\<lparr>world := w\<rparr>) of
           (Inl err, s') \<Rightarrow> (Inl err, s')
         | (Inr c, s') \<Rightarrow> (Inr (rpc_NewClientWithCodec (f c)), s'))"

definition StartConsumer ::
  "'x stdlib \<Rightarrow> writer \<Rightarrow> string \<Rightarrow> string list \<Rightarrow> 'x sys st
     \<Rightarrow> ('x sys ioPipe Provider \<times> error option) \<times> 'x sys st" where
  "StartConsumer lib output path args s =
     (let ((cmd, p), w) = makeCommand lib output path args (world s)
      in case start cmd p (s\<lparr>world := w\<rparr>) of
           (Inl err, s') \<Rightarrow> ((\<lparr>server = None, rwc = None\<rparr>, Some err), s')
         | (Inr c, s') \<Rightarrow> ((\<lparr>server = Some rpc_NewServer, rwc = Some c\<rparr>, None), s'))"

section \<open>Properties of a run of the shutdown protocol\<close>

text \<open>The events a run of \<open>closeProc\<close> adds to the trace it started with.\<close>

definition protocol_events :: "'w st \<Rightarrow> 'w cp \<Rightarrow> event list" where
  "protocol_events s0 s = drop (length (trace s0)) (trace s)"

fun is_main_event :: "event \<Rightarrow> bool" where
  "is_main_event (SignalCall _) = True"
| "is_main_event (Receive _) = True"
| "is_main_event Timeout = True"
| "is_main_event (KillCall _) = True"
| "is_main_event _ = False"

fun is_waiter_event :: "event \<Rightarrow> bool" where
  "is_waiter_event WaitCall = True"
| "is_waiter_event (WaitReturn _) = True"
| "is_waiter_event (Send _) = True"
| "is_waiter_event _ = False"

definition main_events :: "event list \<Rightarrow> event list" where
  "main_events evs = filter is_main_event evs"

definition waiter_events :: "event list \<Rightarrow> event list" where
  "waiter_events evs = filter is_waiter_event evs"

definition kill_result :: "error option \<Rightarrow> error" where
  "kill_result k = (case k of Some e \<Rightarrow> fmt_Errorf_kill e | None \<Rightarrow> errProcStopTimeout)"

definition no_receive :: "event list \<Rightarrow> bool" where
  "no_receive mev = (\<forall>r. Receive r \<notin> set mev)"

definition returned_by_Wait :: "'w ioPipe \<Rightarrow> error option \<Rightarrow> bool" where
  "returned_by_Wait iop e = (\<exists>w w'. Wait (proc iop) w = Some (e, w'))"

definition returned_by_Kill :: "'w ioPipe \<Rightarrow> error option \<Rightarrow> bool" where
  "returned_by_Kill iop e = (\<exists>w w'. Kill (proc iop) w = (e, w'))"

definition returned_by_Signal :: "'w ioPipe \<Rightarrow> error option \<Rightarrow> bool" where
  "returned_by_Signal iop e = (\<exists>w w'. Signal (proc iop) os_Interrupt w = (e, w'))"

text \<open>
  The invariant of the machine: what each thread has logged so far is fixed by its
  program counter, and the channel is empty until the goroutine has sent.
\<close>

definition main_ok :: "'w ioPipe \<Rightarrow> main_pc \<Rightarrow> bool \<Rightarrow> event list \<Rightarrow> bool" where
  "main_ok iop pc tm mev =
     (case pc of
        M_signal \<Rightarrow> mev = [] \<and> \<not> tm
      | M_select \<Rightarrow> mev = [SignalCall None]
      | M_kill \<Rightarrow> mev = [SignalCall None, Timeout] \<and> tm
      | M_return r \<Rightarrow>
          (\<exists>e. r = Some e \<and> mev = [SignalCall (Some e)] \<and> returned_by_Signal iop (Some e))
          \<or> mev = [SignalCall None, Receive r]
          \<or> (\<exists>k. mev = [SignalCall None, Timeout, KillCall k] \<and> r = Some (kill_result k)
                 \<and> returned_by_Kill iop k))"

definition waiter_ok ::
  "'w ioPipe \<Rightarrow> waiter_pc \<Rightarrow> error option list \<Rightarrow> event list \<Rightarrow> event list \<Rightarrow> bool" where
  "waiter_ok iop g ch wev mev =
     (case g of
        G_call \<Rightarrow> wev = [] \<and> ch = [] \<and> no_receive mev
      | G_in_Wait \<Rightarrow> wev = [WaitCall] \<and> ch = [] \<and> no_receive mev
      | G_send e \<Rightarrow>
          wev = [WaitCall, WaitReturn e] \<and> ch = [] \<and> no_receive mev \<and> returned_by_Wait iop e
      | G_done \<Rightarrow>
          (\<exists>e. wev = [WaitCall, WaitReturn e, Send e] \<and> returned_by_Wait iop e
             \<and> (ch = [e] \<and> no_receive mev \<or> ch = [] \<and> mev = [SignalCall None, Receive e])))"

definition cp_inv :: "'w ioPipe \<Rightarrow> event list \<Rightarrow> 'w cp \<Rightarrow> bool" where
  "cp_inv iop t0 s =
     (\<exists>evs. trace s = t0 @ evs
        \<and> (\<forall>e \<in> set evs. is_main_event e \<or> is_waiter_event e)
        \<and> main_ok iop (main s) (timer s) (main_events evs)
        \<and> waiter_ok iop (waiter s) (result s) (waiter_events evs) (main_events evs))"

text \<open>The first two statements of \<open>ioPipe.Close\<close>: the error recorded after them, and the state.\<close>

definition close_streams :: "'w ioPipe \<Rightarrow> 'w st \<Rightarrow> error option \<times> 'w st" where
  "close_streams iop s0 =
     (let (err, s1) = call_Close ReadCloserClose (ReadCloser iop) s0;
          (writeErr, s2) = call_Close WriteCloserClose (WriteCloser iop) s1
      in (if writeErr \<noteq> None then writeErr else err, s2))"

text \<open>What a later call finds: the world and the trace a run has left.\<close>

definition st_of :: "'w cp \<Rightarrow> 'w st" where
  "st_of s = \<lparr>world = world s, trace = trace s\<rparr>"




section \<open>A simulated child process\<close>

text \<open>
  Test doubles for the three interfaces, as the package's tests substitute them: a world
  with one child process and the host's ends of its two pipes. The doubles give the
  concrete runs on which the theorems below are instantiated.
\<close>

record sim =
  alive :: bool
  in_open :: bool
  out_open :: bool
  reaped :: bool

definition sim_init :: sim where
  "sim_init = \<lparr>alive = False, in_open = False, out_open = False, reaped = False\<rparr>"

definition sim_close_in :: "sim closer" where
  "sim_close_in w =
     (if in_open w then (None, w\<lparr>in_open := False\<rparr>)
      else (Some (Foreign ''file already closed''), w))"

definition sim_close_out :: "sim closer" where
  "sim_close_out w =
     (if out_open w then (None, w\<lparr>out_open := False\<rparr>)
      else (Some (Foreign ''file already closed''), w))"

datatype failure = NoFailure | StdinPipeFails | StdoutPipeFails | StartFails

definition sim_commander :: "failure \<Rightarrow> sim commander" where
  "sim_commander f =
     \<lparr>StdinPipe = (\<lambda>w. if f = StdinPipeFails then (Inl (Foreign ''stdin pipe''), w)
                        else (Inr sim_close_in, w\<lparr>in_open := True\<rparr>)),
      StdoutPipe = (\<lambda>w. if f = StdoutPipeFails then (Inl (Foreign ''stdout pipe''), w)
                         else (Inr sim_close_out, w\<lparr>out_open := True\<rparr>)),
      Start = (\<lambda>w. if f = StartFails then (Some (Foreign ''executable file not found''), w)
                    else (None, w\<lparr>alive := True\<rparr>))\<rparr>"

record behaviour =
  signal_error :: "error option"
  exits_on_interrupt :: bool
  kill_error :: "error option"

definition sim_proc :: "behaviour \<Rightarrow> sim osProcess" where
  "sim_proc b =
     \<lparr>Wait = (\<lambda>w. if alive w then None
                   else if reaped w then Some (Some (Foreign ''wait: no child processes''), w)
                   else Some (None, w\<lparr>reaped := True\<rparr>)),
      Kill = (\<lambda>w. case kill_error b of
                     Some e \<Rightarrow> (Some e, w)
                   | None \<Rightarrow> if alive w then (None, w\<lparr>alive := False\<rparr>)
                             else (Some (Foreign ''os: process already finished''), w)),
      Signal = (\<lambda>sg w. case signal_error b of
                          Some e \<Rightarrow> (Some e, w)
                        | None \<Rightarrow> if alive w then (None, w\<lparr>alive := \<not> exits_on_interrupt b\<rparr>)
                                  else (Some (Foreign ''os: process already finished''), w))\<rparr>"

text \<open>Three children: one that exits when interrupted, one that ignores the interrupt,
  and one that cannot be signalled.\<close>

definition polite :: behaviour where
  "polite = \<lparr>signal_error = None, exits_on_interrupt = True, kill_error = None\<rparr>"

definition stubborn :: behaviour where
  "stubborn = \<lparr>signal_error = None, exits_on_interrupt = False, kill_error = None\<rparr>"

definition unsignalled :: behaviour where
  "unsignalled = \<lparr>signal_error = Some (Foreign ''os: unsupported signal type''),
                  exits_on_interrupt = False, kill_error = None\<rparr>"

definition unkillable :: behaviour where
  "unkillable = \<lparr>signal_error = None, exits_on_interrupt = False,
                 kill_error = Some (Foreign ''operation not permitted'')\<rparr>"

text \<open>The channel and the state a successful launch of the simulated child leaves.\<close>

definition sim_iop :: "behaviour \<Rightarrow> sim ioPipe" where
  "sim_iop b = \<lparr>ReadCloser = sim_close_out, WriteCloser = sim_close_in, proc = sim_proc b\<rparr>"

definition sim_started :: "sim st" where
  "sim_started =
     \<lparr>world = \<lparr>alive = True, in_open = True, out_open = True, reaped = False\<rparr>,
      trace = [StdinPipeCall None, StdoutPipeCall None, StartCall None]\<rparr>"

text \<open>Runs of the shutdown protocol on the simulated child.\<close>

definition timeout_run :: "behaviour \<Rightarrow> sim cp option" where
  "timeout_run b =
     exec (sim_iop b) [RunWaiter, RunMain, FireTimer, SelectTimeout, RunMain] (spawn sim_started)"

definition exit_run :: "sim cp option" where
  "exit_run =
     exec (sim_iop polite) [RunWaiter, RunMain, RunWaiter, RunWaiter, SelectResult]
       (spawn sim_started)"

definition signal_failure_run :: "sim cp option" where
  "signal_failure_run = exec (sim_iop unsignalled) [RunWaiter, RunMain] (spawn sim_started)"



definition signalled_run :: "sim cp option" where
  "signalled_run = exec (sim_iop polite) [RunWaiter, RunMain] (spawn sim_started)"

definition late_wait_run :: "sim cp option" where
  "late_wait_run =
     exec (sim_iop polite)
       [RunMain, FireTimer, SelectTimeout, RunWaiter, RunWaiter, RunMain]
       (spawn sim_started)"

definition first_Close :: "(error option \<times> sim cp) option" where
  "first_Close =
     Close (sim_iop polite) [RunWaiter, RunMain, RunWaiter, RunWaiter, SelectResult] sim_started"

definition second_Close_begun :: "sim cp option" where
  "second_Close_begun =
     exec (sim_iop polite) [RunWaiter]
       (spawn (snd (close_streams (sim_iop polite) (st_of (snd (the first_Close))))))"


definition sim_read_side_closed :: "sim st" where
  "sim_read_side_closed =
     \<lparr>world = \<lparr>alive = True, in_open = True, out_open = False, reaped = False\<rparr>, trace = []\<rparr>"

definition Close_read_side_closed ::
  "behaviour \<Rightarrow> choice list \<Rightarrow> (error option \<times> sim cp) option" where
  "Close_read_side_closed b sched = Close (sim_iop b) sched sim_read_side_closed"

definition sim_start :: "failure \<Rightarrow> (error + sim ioPipe) \<times> sim st" where
  "sim_start f = start (sim_commander f) (sim_proc polite) \<lparr>world = sim_init, trace = []\<rparr>"

text \<open>Further runs: a child that cannot be signalled, and one that is killed.\<close>

definition sim_launch :: "behaviour \<Rightarrow> (error + sim ioPipe) \<times> sim st" where
  "sim_launch b = start (sim_commander NoFailure) (sim_proc b) \<lparr>world = sim_init, trace = []\<rparr>"

definition Close_unsignalled :: "(error option \<times> sim cp) option" where
  "Close_unsignalled = Close (sim_iop unsignalled) [RunWaiter, RunMain] sim_started"

definition Close_stubborn :: "(error option \<times> sim cp) option" where
  "Close_stubborn =
     Close (sim_iop stubborn) [RunWaiter, RunMain, FireTimer, SelectTimeout, RunMain] sim_started"

section \<open>A handle that controls the child\<close>

text \<open>
  What it means for a process handle to control a child, given a predicate that says
  whether the child is running in a world: \<open>Wait\<close> returns only when the child is not
  running, a \<open>Kill\<close> that returns nil leaves it not running, and neither \<open>Kill\<close> nor
  \<open>Signal\<close> starts it again. The invariant of the machine that goes with it: once \<open>Wait\<close>
  has returned or \<open>Kill\<close> has returned nil in a run, the child is not running.
\<close>

definition exit_seen :: "event list \<Rightarrow> bool" where
  "exit_seen evs = ((\<exists>e. WaitReturn e \<in> set evs) \<or> KillCall None \<in> set evs)"

definition controls :: "'w osProcess \<Rightarrow> ('w \<Rightarrow> bool) \<Rightarrow> bool" where
  "controls p running =
     ((\<forall>w e w'. Wait p w = Some (e, w') \<longrightarrow> \<not> running w')
      \<and> (\<forall>w e w'. Kill p w = (e, w') \<longrightarrow> e = None \<or> \<not> running w \<longrightarrow> \<not> running w')
      \<and> (\<forall>w e w'. Signal p os_Interrupt w = (e, w') \<longrightarrow> \<not> running w \<longrightarrow> \<not> running w'))"

definition stopped_inv :: "('w \<Rightarrow> bool) \<Rightarrow> event list \<Rightarrow> 'w cp \<Rightarrow> bool" where
  "stopped_inv running t0 s =
     (\<exists>evs. trace s = t0 @ evs \<and> (exit_seen evs \<longrightarrow> \<not> running (world s)))"

section \<open>A double for the library\<close>

text \<open>
  A stand-in for \<open>os/exec\<close> and \<open>os\<close>, for a concrete launch through \<open>makeCommand\<close>:
  \<open>Start\<close> writes the handle of the new process into the \<open>Cmd\<close>, and every method called
  on a nil \<open>*os.Process\<close> answers with an error. (What the library really does on a nil
  receiver is not modelled; the theorems about \<open>makeCommand\<close> hold for every \<open>stdlib\<close>.)
\<close>

definition demo_lib :: "unit stdlib" where
  "demo_lib =
     \<lparr>Cmd_StdinPipe = (\<lambda>c w. (Inr (\<lambda>w'. (None, w')), w)),
      Cmd_StdoutPipe = (\<lambda>c w. (Inr (\<lambda>w'. (None, w')), w)),
      Cmd_Start = (\<lambda>c w. (None, w\<lparr>cmds := (cmds w)[c := (cmds w ! c)\<lparr>Process := Some 4242\<rparr>]\<rparr>)),
      Process_Wait = (\<lambda>p w. case p of None \<Rightarrow> Some (Some (Foreign ''nil process''), w)
                                | Some _ \<Rightarrow> None),
      Process_Kill = (\<lambda>p w. case p of None \<Rightarrow> (Some (Foreign ''nil process''), w)
                                | Some _ \<Rightarrow> (None, w)),
      Process_Signal = (\<lambda>p sg w. case p of None \<Rightarrow> (Some (Foreign ''nil process''), w)
                                | Some _ \<Rightarrow> (None, w))\<rparr>"

definition demo_boot :: "unit sys st" where
  "demo_boot = \<lparr>world = \<lparr>cmds = [], os = ()\<rparr>, trace = []\<rparr>"

definition demo_StartProvider ::
  "(error + (unit sys ioPipe, unit) rpc_Client) \<times> unit sys st" where
  "demo_StartProvider = StartProvider demo_lib 2 ''/usr/bin/plugin'' [''-v''] demo_boot"

definition demo_StartProviderCodec ::
  "(error + (unit sys ioPipe, unit sys ioPipe) rpc_Client) \<times> unit sys st" where
  "demo_StartProviderCodec =
     StartProviderCodec demo_lib (\<lambda>c. c) 2 ''/usr/bin/plugin'' [''-v''] demo_boot"

definition demo_StartConsumer :: "(unit sys ioPipe Provider \<times> error option) \<times> unit sys st" where
  "demo_StartConsumer = StartConsumer demo_lib 2 ''/usr/bin/plugin'' [''-v''] demo_boot"

definition demo_launched :: "unit sys st" where
  "demo_launched =
     \<lparr>world = \<lparr>cmds = [\<lparr>Path = ''/usr/bin/plugin'', Args = [''/usr/bin/plugin'', ''-v''],
                          Stderr = Some 2, Process = Some 4242\<rparr>], os = ()\<rparr>,
      trace = [StdinPipeCall None, StdoutPipeCall None, StartCall None]\<rparr>"

definition demo_iop :: "unit sys ioPipe" where
  "demo_iop = \<lparr>ReadCloser = (\<lambda>w'. (None, w')), WriteCloser = (\<lambda>w'. (None, w')),
               proc = Process_osProcess demo_lib None\<rparr>"

section \<open>Panics\<close>

text \<open>
  The machine above takes every method call to return. In Go a call can also panic, and
  a panic in either thread that nothing recovers ends the program; the package has no
  \<open>recover\<close>. Two things can panic in \<open>ioPipe.Close\<close> and \<open>closeProc\<close>: a method call through
  an interface value that is nil, and the method that is called. (The send cannot: the
  channel is never closed.) The machine with panics is the same machine, with every
  interface value of the channel a value or nil, and every method returning or panicking.
  A run ends at the first panic.
\<close>

datatype 'a outcome = Returned 'a | Panicked

type_synonym 'w p_closer = "'w \<Rightarrow> (error option \<times> 'w) outcome"

record 'w p_osProcess =
  p_Wait :: "'w \<Rightarrow> (error option \<times> 'w) outcome option"
  p_Kill :: "'w \<Rightarrow> (error option \<times> 'w) outcome"
  p_Signal :: "os_Signal \<Rightarrow> 'w \<Rightarrow> (error option \<times> 'w) outcome"

record 'w p_ioPipe =
  p_ReadCloser :: "'w p_closer option"
  p_WriteCloser :: "'w p_closer option"
  p_proc :: "'w p_osProcess option"

definition p_call_Close ::
  "(error option \<Rightarrow> event) \<Rightarrow> 'w p_closer option \<Rightarrow> 'w st \<Rightarrow> (error option \<times> 'w st) outcome" where
  "p_call_Close ev c s =
     (case c of
        None \<Rightarrow> Panicked
      | Some f \<Rightarrow>
          (case f (world s) of
             Panicked \<Rightarrow> Panicked
           | Returned (err, w) \<Rightarrow> Returned (err, \<lparr>world = w, trace = trace s @ [ev err]\<rparr>)))"

definition p_main_step :: "'w p_ioPipe \<Rightarrow> 'w cp \<Rightarrow> 'w cp outcome option" where
  "p_main_step iop s =
     (case main s of
        M_signal \<Rightarrow>
          (case p_proc iop of
             None \<Rightarrow> Some Panicked
           | Some p \<Rightarrow>
               (case p_Signal p os_Interrupt (world s) of
                  Panicked \<Rightarrow> Some Panicked
                | Returned (err, w) \<Rightarrow>
                    Some (Returned (s\<lparr>world := w, trace := trace s @ [SignalCall err],
                      main := (if err \<noteq> None then M_return err else M_select)\<rparr>))))
      | M_kill \<Rightarrow>
          (case p_proc iop of
             None \<Rightarrow> Some Panicked
           | Some p \<Rightarrow>
               (case p_Kill p (world s) of
                  Panicked \<Rightarrow> Some Panicked
                | Returned (err, w) \<Rightarrow>
                    Some (Returned (s\<lparr>world := w, trace := trace s @ [KillCall err],
                      main := (case err of
                                 Some e \<Rightarrow> M_return (Some (fmt_Errorf_kill e))
                               | None \<Rightarrow> M_return (Some errProcStopTimeout))\<rparr>))))
      | _ \<Rightarrow> None)"

definition p_waiter_step :: "'w p_ioPipe \<Rightarrow> 'w cp \<Rightarrow> 'w cp outcome option" where
  "p_waiter_step iop s =
     (case waiter s of
        G_call \<Rightarrow>
          (case p_proc iop of
             None \<Rightarrow> Some Panicked
           | Some p \<Rightarrow> Some (Returned (s\<lparr>trace := trace s @ [WaitCall], waiter := G_in_Wait\<rparr>)))
      | G_in_Wait \<Rightarrow>
          (case p_proc iop of
             None \<Rightarrow> None
           | Some p \<Rightarrow>
               (case p_Wait p (world s) of
                  None \<Rightarrow> None
                | Some Panicked \<Rightarrow> Some Panicked
                | Some (Returned (err, w)) \<Rightarrow>
                    Some (Returned (s\<lparr>world := w, trace := trace s @ [WaitReturn err],
                      waiter := G_send err\<rparr>))))
      | G_send err \<Rightarrow>
          (if length (result s) < 1
           then Some (Returned (s\<lparr>trace := trace s @ [Send err], result := result s @ [err],
                        waiter := G_done\<rparr>))
           else None)
      | G_done \<Rightarrow> None)"

fun p_step :: "'w p_ioPipe \<Rightarrow> choice \<Rightarrow> 'w cp \<Rightarrow> 'w cp outcome option" where
  "p_step iop RunMain s = p_main_step iop s"
| "p_step iop SelectResult s = map_option Returned (select_result s)"
| "p_step iop SelectTimeout s = map_option Returned (select_timeout s)"
| "p_step iop RunWaiter s = p_waiter_step iop s"
| "p_step iop FireTimer s = map_option Returned (fire_timer s)"

fun p_exec :: "'w p_ioPipe \<Rightarrow> choice list \<Rightarrow> 'w cp \<Rightarrow> 'w cp outcome option" where
  "p_exec iop [] s = Some (Returned s)"
| "p_exec iop (c # cs) s =
     (case p_step iop c s of
        None \<Rightarrow> None
      | Some Panicked \<Rightarrow> Some Panicked
      | Some (Returned s') \<Rightarrow> p_exec iop cs s')"

definition p_closeProc ::
  "'w p_ioPipe \<Rightarrow> choice list \<Rightarrow> 'w st \<Rightarrow> (error option \<times> 'w cp) outcome option" where
  "p_closeProc iop sched s =
     (case p_exec iop sched (spawn s) of
        None \<Rightarrow> None
      | Some Panicked \<Rightarrow> Some Panicked
      | Some (Returned s') \<Rightarrow>
          (case main s' of M_return err \<Rightarrow> Some (Returned (err, s')) | _ \<Rightarrow> None))"

definition p_Close ::
  "'w p_ioPipe \<Rightarrow> choice list \<Rightarrow> 'w st \<Rightarrow> (error option \<times> 'w cp) outcome option" where
  "p_Close iop sched s0 =
     (case p_call_Close ReadCloserClose (p_ReadCloser iop) s0 of
        Panicked \<Rightarrow> Some Panicked
      | Returned (err, s1) \<Rightarrow>
          (case p_call_Close WriteCloserClose (p_WriteCloser iop) s1 of
             Panicked \<Rightarrow> Some Panicked
           | Returned (writeErr, s2) \<Rightarrow>
               (let err = (if writeErr \<noteq> None then writeErr else err)
                in case p_closeProc iop sched s2 of
                     None \<Rightarrow> None
                   | Some Panicked \<Rightarrow> Some Panicked
                   | Some (Returned (procErr, s3)) \<Rightarrow>
                       Some (Returned (if procErr \<noteq> None then procErr else err, s3)))))"







definition returning :: "'w ioPipe \<Rightarrow> 'w p_ioPipe" where
  "returning iop =
     \<lparr>p_ReadCloser = Some (\<lambda>w. Returned (ReadCloser iop w)),
      p_WriteCloser = Some (\<lambda>w. Returned (WriteCloser iop w)),
      p_proc = Some \<lparr>p_Wait = (\<lambda>w. map_option Returned (Wait (proc iop) w)),
                     p_Kill = (\<lambda>w. Returned (Kill (proc iop) w)),
                     p_Signal = (\<lambda>sg w. Returned (Signal (proc iop) sg w))\<rparr>\<rparr>"



definition p_nil_proc_Close :: "(error option \<times> sim cp) outcome option" where
  "p_nil_proc_Close = p_Close ((returning (sim_iop polite))\<lparr>p_proc := None\<rparr>) [RunMain] sim_started"

text \<open>C6: rwCloser.Close closes the read side, then the write side whatever the first
  close returned, and returns the write side's error when there is one, else the read
  side's error (nil when both succeed).\<close>

theorem rwCloser_Close_last_error:
  "rwCloser_Close rw s =
     (let (rerr, w1) = rw_ReadCloser rw (world s);
          (werr, w2) = rw_WriteCloser rw w1
      in (case werr of Some e \<Rightarrow> Some e | None \<Rightarrow> rerr,
          \<lparr>world = w2, trace = trace s @ [ReadCloserClose rerr, WriteCloserClose werr]\<rparr>))"
  by (auto simp: rwCloser_Close_def call_Close_def Let_def split: prod.splits)

section \<open>The invariant holds in every state the machine reaches\<close>

lemma cp_inv_spawn: "cp_inv iop (trace s0) (spawn s0)"
  by (simp add: cp_inv_def spawn_def main_ok_def waiter_ok_def main_events_def waiter_events_def no_receive_def)


lemma main_events_snoc [simp]:
  "main_events (evs @ [e]) = main_events evs @ (if is_main_event e then [e] else [])"
  by (simp add: main_events_def)

lemma waiter_events_snoc [simp]:
  "waiter_events (evs @ [e]) = waiter_events evs @ (if is_waiter_event e then [e] else [])"
  by (simp add: waiter_events_def)

lemma cp_invI:
  "trace s = t0 @ evs \<Longrightarrow> (\<forall>e \<in> set evs. is_main_event e \<or> is_waiter_event e)
   \<Longrightarrow> main_ok iop (main s) (timer s) (main_events evs)
   \<Longrightarrow> waiter_ok iop (waiter s) (result s) (waiter_events evs) (main_events evs)
   \<Longrightarrow> cp_inv iop t0 s"
  unfolding cp_inv_def by blast

lemma waiter_ok_main_snoc:
  "waiter_ok iop g ch wev mev \<Longrightarrow> mev = [] \<or> mev = [SignalCall None] \<or> mev = [SignalCall None, Timeout]
   \<Longrightarrow> \<forall>r. e \<noteq> Receive r
   \<Longrightarrow> waiter_ok iop g ch wev (mev @ [e])"
  by (cases g) (auto simp: waiter_ok_def no_receive_def)

lemma cp_inv_main_step:
  assumes inv: "cp_inv iop t0 s" and st: "main_step iop s = Some s'"
  shows "cp_inv iop t0 s'"
proof -
  from inv obtain evs where tr: "trace s = t0 @ evs"
    and ev: "\<forall>e \<in> set evs. is_main_event e \<or> is_waiter_event e"
    and m: "main_ok iop (main s) (timer s) (main_events evs)"
    and w: "waiter_ok iop (waiter s) (result s) (waiter_events evs) (main_events evs)"
    unfolding cp_inv_def by blast
  show ?thesis
  proof (cases "main s")
    case M_signal
    obtain err w' where sg: "Signal (proc iop) os_Interrupt (world s) = (err, w')"
      by (cases "Signal (proc iop) os_Interrupt (world s)") simp
    from st M_signal sg have s': "s' = s\<lparr>world := w', trace := trace s @ [SignalCall err],
        main := (if err \<noteq> None then M_return err else M_select)\<rparr>"
      by (simp add: main_step_def)
    from m M_signal have mev: "main_events evs = []" and tm: "\<not> timer s"
      by (simp_all add: main_ok_def)
    show ?thesis
    proof (rule cp_invI [where evs = "evs @ [SignalCall err]"])
      show "trace s' = t0 @ evs @ [SignalCall err]" using s' tr by simp
      show "\<forall>e \<in> set (evs @ [SignalCall err]). is_main_event e \<or> is_waiter_event e"
        using ev by simp
      show "main_ok iop (main s') (timer s') (main_events (evs @ [SignalCall err]))"
        using s' mev sg by (cases err) (auto simp: main_ok_def returned_by_Signal_def)
      show "waiter_ok iop (waiter s') (result s') (waiter_events (evs @ [SignalCall err]))
              (main_events (evs @ [SignalCall err]))"
        using s' mev waiter_ok_main_snoc [OF w, of "SignalCall err"] by simp
    qed
  next
    case M_kill
    obtain err w' where kl: "Kill (proc iop) (world s) = (err, w')"
      by (cases "Kill (proc iop) (world s)") simp
    from st M_kill kl have s': "s' = s\<lparr>world := w', trace := trace s @ [KillCall err],
        main := M_return (Some (kill_result err))\<rparr>"
      by (cases err) (simp_all add: main_step_def kill_result_def)
    from m M_kill have mev: "main_events evs = [SignalCall None, Timeout]"
      by (simp add: main_ok_def)
    show ?thesis
    proof (rule cp_invI [where evs = "evs @ [KillCall err]"])
      show "trace s' = t0 @ evs @ [KillCall err]" using s' tr by simp
      show "\<forall>e \<in> set (evs @ [KillCall err]). is_main_event e \<or> is_waiter_event e"
        using ev by simp
      show "main_ok iop (main s') (timer s') (main_events (evs @ [KillCall err]))"
        using s' mev kl by (auto simp: main_ok_def returned_by_Kill_def)
      show "waiter_ok iop (waiter s') (result s') (waiter_events (evs @ [KillCall err]))
              (main_events (evs @ [KillCall err]))"
        using s' mev waiter_ok_main_snoc [OF w, of "KillCall err"] by simp
    qed
  next
    case M_select
    with st show ?thesis by (simp add: main_step_def)
  next
    case (M_return r)
    with st show ?thesis by (simp add: main_step_def)
  qed
qed


lemma waiter_ok_nonempty:
  assumes "waiter_ok iop g (err # rest) wev mev"
  shows "g = G_done \<and> rest = [] \<and> wev = [WaitCall, WaitReturn err, Send err]
         \<and> returned_by_Wait iop err \<and> no_receive mev"
  using assms by (cases g) (auto simp: waiter_ok_def)

lemma cp_inv_select_result:
  assumes inv: "cp_inv iop t0 s" and st: "select_result s = Some s'"
  shows "cp_inv iop t0 s'"
proof -
  from inv obtain evs where tr: "trace s = t0 @ evs"
    and ev: "\<forall>e \<in> set evs. is_main_event e \<or> is_waiter_event e"
    and m: "main_ok iop (main s) (timer s) (main_events evs)"
    and w: "waiter_ok iop (waiter s) (result s) (waiter_events evs) (main_events evs)"
    unfolding cp_inv_def by blast
  from st obtain err rest where ms: "main s = M_select" and res: "result s = err # rest"
    and s': "s' = s\<lparr>trace := trace s @ [Receive err], result := rest, main := M_return err\<rparr>"
    by (auto simp: select_result_def split: main_pc.splits list.splits)
  from m ms have mev: "main_events evs = [SignalCall None]" by (simp add: main_ok_def)
  from waiter_ok_nonempty [OF w [unfolded res]]
  have g: "waiter s = G_done" and rest: "rest = []"
    and wev: "waiter_events evs = [WaitCall, WaitReturn err, Send err]"
    and rw: "returned_by_Wait iop err" by simp_all
  show ?thesis
  proof (rule cp_invI [where evs = "evs @ [Receive err]"])
    show "trace s' = t0 @ evs @ [Receive err]" using s' tr by simp
    show "\<forall>e \<in> set (evs @ [Receive err]). is_main_event e \<or> is_waiter_event e"
      using ev by simp
    show "main_ok iop (main s') (timer s') (main_events (evs @ [Receive err]))"
      using s' mev by (simp add: main_ok_def)
    show "waiter_ok iop (waiter s') (result s') (waiter_events (evs @ [Receive err]))
            (main_events (evs @ [Receive err]))"
      using s' mev g rest wev rw by (simp add: waiter_ok_def)
  qed
qed

lemma cp_inv_select_timeout:
  assumes inv: "cp_inv iop t0 s" and st: "select_timeout s = Some s'"
  shows "cp_inv iop t0 s'"
proof -
  from inv obtain evs where tr: "trace s = t0 @ evs"
    and ev: "\<forall>e \<in> set evs. is_main_event e \<or> is_waiter_event e"
    and m: "main_ok iop (main s) (timer s) (main_events evs)"
    and w: "waiter_ok iop (waiter s) (result s) (waiter_events evs) (main_events evs)"
    unfolding cp_inv_def by blast
  from st have ms: "main s = M_select" and tm: "timer s"
    and s': "s' = s\<lparr>trace := trace s @ [Timeout], main := M_kill\<rparr>"
    by (auto simp: select_timeout_def split: if_splits)
  from m ms have mev: "main_events evs = [SignalCall None]" by (simp add: main_ok_def)
  show ?thesis
  proof (rule cp_invI [where evs = "evs @ [Timeout]"])
    show "trace s' = t0 @ evs @ [Timeout]" using s' tr by simp
    show "\<forall>e \<in> set (evs @ [Timeout]). is_main_event e \<or> is_waiter_event e"
      using ev by simp
    show "main_ok iop (main s') (timer s') (main_events (evs @ [Timeout]))"
      using s' mev tm by (simp add: main_ok_def)
    show "waiter_ok iop (waiter s') (result s') (waiter_events (evs @ [Timeout]))
            (main_events (evs @ [Timeout]))"
      using s' mev waiter_ok_main_snoc [OF w, of Timeout] by simp
  qed
qed

lemma cp_inv_fire_timer:
  assumes inv: "cp_inv iop t0 s" and st: "fire_timer s = Some s'"
  shows "cp_inv iop t0 s'"
proof -
  from st have ms: "main s = M_select" and s': "s' = s\<lparr>timer := True\<rparr>"
    by (auto simp: fire_timer_def split: if_splits)
  from inv ms s' show ?thesis
    by (simp add: cp_inv_def main_ok_def)
qed

lemma cp_inv_waiter_step:
  assumes inv: "cp_inv iop t0 s" and st: "waiter_step iop s = Some s'"
  shows "cp_inv iop t0 s'"
proof -
  from inv obtain evs where tr: "trace s = t0 @ evs"
    and ev: "\<forall>e \<in> set evs. is_main_event e \<or> is_waiter_event e"
    and m: "main_ok iop (main s) (timer s) (main_events evs)"
    and w: "waiter_ok iop (waiter s) (result s) (waiter_events evs) (main_events evs)"
    unfolding cp_inv_def by blast
  show ?thesis
  proof (cases "waiter s")
    case G_call
    with st have s': "s' = s\<lparr>trace := trace s @ [WaitCall], waiter := G_in_Wait\<rparr>"
      by (simp add: waiter_step_def)
    show ?thesis
    proof (rule cp_invI [where evs = "evs @ [WaitCall]"])
      show "trace s' = t0 @ evs @ [WaitCall]" using s' tr by simp
      show "\<forall>e \<in> set (evs @ [WaitCall]). is_main_event e \<or> is_waiter_event e"
        using ev by simp
      show "main_ok iop (main s') (timer s') (main_events (evs @ [WaitCall]))"
        using s' m by simp
      show "waiter_ok iop (waiter s') (result s') (waiter_events (evs @ [WaitCall]))
              (main_events (evs @ [WaitCall]))"
        using s' w G_call by (simp add: waiter_ok_def)
    qed
  next
    case G_in_Wait
    with st obtain err w' where wt: "Wait (proc iop) (world s) = Some (err, w')"
      and s': "s' = s\<lparr>world := w', trace := trace s @ [WaitReturn err], waiter := G_send err\<rparr>"
      by (auto simp: waiter_step_def split: option.splits)
    show ?thesis
    proof (rule cp_invI [where evs = "evs @ [WaitReturn err]"])
      show "trace s' = t0 @ evs @ [WaitReturn err]" using s' tr by simp
      show "\<forall>e \<in> set (evs @ [WaitReturn err]). is_main_event e \<or> is_waiter_event e"
        using ev by simp
      show "main_ok iop (main s') (timer s') (main_events (evs @ [WaitReturn err]))"
        using s' m by simp
      show "waiter_ok iop (waiter s') (result s') (waiter_events (evs @ [WaitReturn err]))
              (main_events (evs @ [WaitReturn err]))"
        using s' w G_in_Wait wt by (auto simp: waiter_ok_def returned_by_Wait_def)
    qed
  next
    case (G_send err)
    with st have s': "s' = s\<lparr>trace := trace s @ [Send err], result := result s @ [err],
        waiter := G_done\<rparr>"
      by (simp add: waiter_step_def split: if_splits)
    show ?thesis
    proof (rule cp_invI [where evs = "evs @ [Send err]"])
      show "trace s' = t0 @ evs @ [Send err]" using s' tr by simp
      show "\<forall>e \<in> set (evs @ [Send err]). is_main_event e \<or> is_waiter_event e"
        using ev by simp
      show "main_ok iop (main s') (timer s') (main_events (evs @ [Send err]))"
        using s' m by simp
      show "waiter_ok iop (waiter s') (result s') (waiter_events (evs @ [Send err]))
              (main_events (evs @ [Send err]))"
        using s' w G_send by (simp add: waiter_ok_def)
    qed
  next
    case G_done
    with st show ?thesis by (simp add: waiter_step_def)
  qed
qed

lemma cp_inv_step:
  assumes "cp_inv iop t0 s" and "step iop c s = Some s'"
  shows "cp_inv iop t0 s'"
proof (cases c)
  case RunMain
  with assms show ?thesis using cp_inv_main_step [of iop t0 s s'] by simp
next
  case SelectResult
  with assms show ?thesis using cp_inv_select_result [of iop t0 s s'] by simp
next
  case SelectTimeout
  with assms show ?thesis using cp_inv_select_timeout [of iop t0 s s'] by simp
next
  case RunWaiter
  with assms show ?thesis using cp_inv_waiter_step [of iop t0 s s'] by simp
next
  case FireTimer
  with assms show ?thesis using cp_inv_fire_timer [of iop t0 s s'] by simp
qed

lemma cp_inv_exec: "cp_inv iop t0 s \<Longrightarrow> exec iop cs s = Some s' \<Longrightarrow> cp_inv iop t0 s'"
proof (induction cs arbitrary: s)
  case Nil
  then show ?case by simp
next
  case (Cons c cs)
  from Cons.prems(2) obtain s1 where 1: "step iop c s = Some s1" and 2: "exec iop cs s1 = Some s'"
    by (auto split: option.splits)
  from Cons.IH [OF cp_inv_step [OF Cons.prems(1) 1] 2] show ?case .
qed

section \<open>Facts about every run\<close>


lemma cp_inv_reached:
  assumes "exec iop sched (spawn s0) = Some s"
  shows "cp_inv iop (trace s0) s"
  using cp_inv_exec [OF cp_inv_spawn assms] .

lemma protocol_events_eq: "trace s = trace s0 @ evs \<Longrightarrow> protocol_events s0 s = evs"
  by (simp add: protocol_events_def)

lemma reached_facts:
  assumes "exec iop sched (spawn s0) = Some s"
  shows "trace s = trace s0 @ protocol_events s0 s"
    and "\<forall>e \<in> set (protocol_events s0 s). is_main_event e \<or> is_waiter_event e"
    and "main_ok iop (main s) (timer s) (main_events (protocol_events s0 s))"
    and "waiter_ok iop (waiter s) (result s) (waiter_events (protocol_events s0 s))
           (main_events (protocol_events s0 s))"
proof -
  from cp_inv_reached [OF assms] obtain evs where tr: "trace s = trace s0 @ evs"
    and ev: "\<forall>e \<in> set evs. is_main_event e \<or> is_waiter_event e"
    and m: "main_ok iop (main s) (timer s) (main_events evs)"
    and w: "waiter_ok iop (waiter s) (result s) (waiter_events evs) (main_events evs)"
    unfolding cp_inv_def by blast
  have "protocol_events s0 s = evs" using tr by (rule protocol_events_eq)
  with tr ev m w show "trace s = trace s0 @ protocol_events s0 s"
    and "\<forall>e \<in> set (protocol_events s0 s). is_main_event e \<or> is_waiter_event e"
    and "main_ok iop (main s) (timer s) (main_events (protocol_events s0 s))"
    and "waiter_ok iop (waiter s) (result s) (waiter_events (protocol_events s0 s))
           (main_events (protocol_events s0 s))"
    by simp_all
qed

lemma in_main_events: "is_main_event e \<Longrightarrow> e \<in> set evs \<longleftrightarrow> e \<in> set (main_events evs)"
  by (simp add: main_events_def)

lemma in_waiter_events: "is_waiter_event e \<Longrightarrow> e \<in> set evs \<longleftrightarrow> e \<in> set (waiter_events evs)"
  by (simp add: waiter_events_def)

lemma fmt_Errorf_kill_distinct: "fmt_Errorf_kill e \<noteq> errProcStopTimeout"
  by (simp add: fmt_Errorf_kill_def errProcStopTimeout_def)

section \<open>The runs on the simulated child, evaluated\<close>

lemmas machine_defs = spawn_def main_step_def select_result_def select_timeout_def
  fire_timer_def waiter_step_def call_Close_def
lemmas sim_defs = sim_iop_def sim_started_def sim_proc_def sim_close_in_def sim_close_out_def
  polite_def stubborn_def unsignalled_def unkillable_def sim_commander_def sim_init_def


lemma timeout_run_unkillable:
  "timeout_run unkillable
   = Some \<lparr>world = \<lparr>alive = True, in_open = True, out_open = True, reaped = False\<rparr>,
           trace = [StdinPipeCall None, StdoutPipeCall None, StartCall None, WaitCall,
                    SignalCall None, Timeout, KillCall (Some (Foreign ''operation not permitted''))],
           main = M_return (Some (FmtErrorf
                    ''error killing process after timeout: operation not permitted'')),
           waiter = G_in_Wait, result = [], timer = True\<rparr>"
  by (simp add: timeout_run_def machine_defs sim_defs fmt_Errorf_kill_def)

lemma exit_run_eq:
  "exit_run
   = Some \<lparr>world = \<lparr>alive = False, in_open = True, out_open = True, reaped = True\<rparr>,
           trace = [StdinPipeCall None, StdoutPipeCall None, StartCall None, WaitCall,
                    SignalCall None, WaitReturn None, Send None, Receive None],
           main = M_return None, waiter = G_done, result = [], timer = False\<rparr>"
  by (simp add: exit_run_def machine_defs sim_defs)

lemma signal_failure_run_eq:
  "signal_failure_run
   = Some \<lparr>world = \<lparr>alive = True, in_open = True, out_open = True, reaped = False\<rparr>,
           trace = [StdinPipeCall None, StdoutPipeCall None, StartCall None, WaitCall,
                    SignalCall (Some (Foreign ''os: unsupported signal type''))],
           main = M_return (Some (Foreign ''os: unsupported signal type'')),
           waiter = G_in_Wait, result = [], timer = False\<rparr>"
  by (simp add: signal_failure_run_def machine_defs sim_defs)

section \<open>The shutdown protocol\<close>





text \<open>C5, as amended: in every run in which \<open>Signal\<close> returns an error, the caller returns
  that error at once: it never receives the result of the wait, never takes the timeout
  branch and never calls \<open>Kill\<close>. (The goroutine that calls \<open>Wait\<close> was started before
  the signal was sent and may call \<open>Wait\<close> at any time.)\<close>

theorem closeProc_signal_failure:
  assumes run: "exec iop sched (spawn s0) = Some s"
    and sig: "SignalCall (Some e) \<in> set (protocol_events s0 s)"
  shows "main s = M_return (Some e)
       \<and> returned_by_Signal iop (Some e)
       \<and> main_events (protocol_events s0 s) = [SignalCall (Some e)]
       \<and> (\<forall>r. Receive r \<notin> set (protocol_events s0 s))
       \<and> Timeout \<notin> set (protocol_events s0 s)
       \<and> (\<forall>k. KillCall k \<notin> set (protocol_events s0 s))"
proof -
  let ?evs = "protocol_events s0 s"
  from sig have t: "SignalCall (Some e) \<in> set (main_events ?evs)"
    by (simp add: in_main_events [symmetric])
  note m = reached_facts(3) [OF run]
  from m t have ms: "main s = M_return (Some e)" and rs: "returned_by_Signal iop (Some e)"
    and mev: "main_events ?evs = [SignalCall (Some e)]"
    by (cases "main s"; auto simp: main_ok_def)+
  have "\<And>x. is_main_event x \<Longrightarrow> x \<noteq> SignalCall (Some e) \<Longrightarrow> x \<notin> set ?evs"
    using mev by (simp add: in_main_events)
  then have "(\<forall>r. Receive r \<notin> set ?evs) \<and> Timeout \<notin> set ?evs \<and> (\<forall>k. KillCall k \<notin> set ?evs)"
    by simp
  with ms rs mev show ?thesis by simp
qed

text \<open>C5 as stated fails: on a child that cannot be signalled, the goroutine calls \<open>Wait\<close>
  and the caller then returns the error of \<open>Signal\<close>.\<close>

theorem closeProc_signal_failure_Wait_called:
  "signal_failure_run \<noteq> None
   \<and> main (the signal_failure_run) = M_return (Some (Foreign ''os: unsupported signal type''))
   \<and> protocol_events sim_started (the signal_failure_run)
       = [WaitCall, SignalCall (Some (Foreign ''os: unsupported signal type''))]"
  by (simp add: signal_failure_run_eq protocol_events_def sim_started_def)

text \<open>The amended theorem on the same run.\<close>

theorem closeProc_signal_failure_witness:
  "signal_failure_run \<noteq> None
   \<and> SignalCall (Some (Foreign ''os: unsupported signal type''))
       \<in> set (protocol_events sim_started (the signal_failure_run))
   \<and> main (the signal_failure_run) = M_return (Some (Foreign ''os: unsupported signal type''))
   \<and> main_events (protocol_events sim_started (the signal_failure_run))
       = [SignalCall (Some (Foreign ''os: unsupported signal type''))]
   \<and> Timeout \<notin> set (protocol_events sim_started (the signal_failure_run))"
proof -
  have r: "exec (sim_iop unsignalled) [RunWaiter, RunMain] (spawn sim_started)
             = Some (the signal_failure_run)"
    using signal_failure_run_eq by (simp add: signal_failure_run_def)
  have t: "SignalCall (Some (Foreign ''os: unsupported signal type''))
             \<in> set (protocol_events sim_started (the signal_failure_run))"
    by (simp add: signal_failure_run_eq protocol_events_def sim_started_def)
  from closeProc_signal_failure [OF r t] t show ?thesis
    by (simp add: signal_failure_run_eq)
qed

section \<open>Close, step by step, and the bound on a run\<close>

lemma closeProc_SomeD:
  assumes "closeProc iop sched s0 = Some (r, s)"
  shows "exec iop sched (spawn s0) = Some s" and "main s = M_return r"
  using assms by (auto simp: closeProc_def split: option.splits main_pc.splits)


lemma Close_eq:
  "Close iop sched s0 =
     (case closeProc iop sched (snd (close_streams iop s0)) of
        None \<Rightarrow> None
      | Some (procErr, s3) \<Rightarrow>
          Some (if procErr \<noteq> None then procErr else fst (close_streams iop s0), s3))"
proof -
  obtain err s1 where 1: "call_Close ReadCloserClose (ReadCloser iop) s0 = (err, s1)"
    by (cases "call_Close ReadCloserClose (ReadCloser iop) s0") simp
  obtain writeErr s2 where 2: "call_Close WriteCloserClose (WriteCloser iop) s1 = (writeErr, s2)"
    by (cases "call_Close WriteCloserClose (WriteCloser iop) s1") simp
  have cs: "close_streams iop s0 = (if writeErr \<noteq> None then writeErr else err, s2)"
    by (simp add: close_streams_def 1 2)
  show ?thesis
    by (cases "closeProc iop sched s2") (auto simp: Close_def 1 2 cs)
qed

lemma close_streams_eq:
  "close_streams iop s0 =
     (let (rerr, w1) = ReadCloser iop (world s0);
          (werr, w2) = WriteCloser iop w1
      in (if werr \<noteq> None then werr else rerr,
          \<lparr>world = w2, trace = trace s0 @ [ReadCloserClose rerr, WriteCloserClose werr]\<rparr>))"
  by (simp add: close_streams_def call_Close_def Let_def split: prod.splits)

lemma returned_has_signal:
  assumes "exec iop sched (spawn s0) = Some s" and "main s = M_return r"
  shows "\<exists>e. SignalCall e \<in> set (protocol_events s0 s)"
proof -
  from reached_facts(3) [OF assms(1)] assms(2)
  have "\<exists>e. SignalCall e \<in> set (main_events (protocol_events s0 s))"
    by (auto simp: main_ok_def)
  then show ?thesis by (simp add: in_main_events [symmetric])
qed




lemma kill_returns:
  assumes "main s = M_kill"
  shows "\<exists>s' r. step iop RunMain s = Some s' \<and> main s' = M_return r"
  using assms by (auto simp: main_step_def Let_def split: prod.splits option.splits)



section \<open>More runs on the simulated child, evaluated\<close>

lemmas close_defs = Close_def closeProc_def close_streams_def st_of_def
lemmas start_defs = start_def call_Pipe_def call_Start_def deferred_Close_def



lemma signalled_run_eq:
  "signalled_run
   = Some \<lparr>world = \<lparr>alive = False, in_open = True, out_open = True, reaped = False\<rparr>,
           trace = [StdinPipeCall None, StdoutPipeCall None, StartCall None, WaitCall,
                    SignalCall None],
           main = M_select, waiter = G_in_Wait, result = [], timer = False\<rparr>"
  by (simp add: signalled_run_def machine_defs sim_defs)

lemma late_wait_run_eq:
  "late_wait_run
   = Some \<lparr>world = \<lparr>alive = False, in_open = True, out_open = True, reaped = True\<rparr>,
           trace = [StdinPipeCall None, StdoutPipeCall None, StartCall None, SignalCall None,
                    Timeout, WaitCall, WaitReturn None,
                    KillCall (Some (Foreign ''os: process already finished''))],
           main = M_return (Some (FmtErrorf
                    ''error killing process after timeout: os: process already finished'')),
           waiter = G_send None, result = [], timer = True\<rparr>"
  by (simp add: late_wait_run_def machine_defs sim_defs fmt_Errorf_kill_def)

lemma first_Close_eq:
  "first_Close
   = Some (None,
       \<lparr>world = \<lparr>alive = False, in_open = False, out_open = False, reaped = True\<rparr>,
        trace = [StdinPipeCall None, StdoutPipeCall None, StartCall None,
                 ReadCloserClose None, WriteCloserClose None, WaitCall, SignalCall None,
                 WaitReturn None, Send None, Receive None],
        main = M_return None, waiter = G_done, result = [], timer = False\<rparr>)"
  by (simp add: first_Close_def close_defs machine_defs sim_defs)


lemma second_Close_begun_eq:
  "second_Close_begun
   = Some \<lparr>world = \<lparr>alive = False, in_open = False, out_open = False, reaped = True\<rparr>,
        trace = [StdinPipeCall None, StdoutPipeCall None, StartCall None,
                 ReadCloserClose None, WriteCloserClose None, WaitCall, SignalCall None,
                 WaitReturn None, Send None, Receive None,
                 ReadCloserClose (Some (Foreign ''file already closed'')),
                 WriteCloserClose (Some (Foreign ''file already closed'')),
                 WaitCall],
        main = M_signal, waiter = G_in_Wait, result = [], timer = False\<rparr>"
  by (simp add: second_Close_begun_def first_Close_eq close_defs machine_defs sim_defs)

lemma Close_read_side_closed_stubborn:
  "Close_read_side_closed stubborn [RunMain, FireTimer, SelectTimeout, RunMain]
   = Some (Some errProcStopTimeout,
       \<lparr>world = \<lparr>alive = False, in_open = False, out_open = False, reaped = False\<rparr>,
        trace = [ReadCloserClose (Some (Foreign ''file already closed'')),
                 WriteCloserClose None, SignalCall None, Timeout, KillCall None],
        main = M_return (Some errProcStopTimeout), waiter = G_call, result = [],
        timer = True\<rparr>)"
  by (simp add: Close_read_side_closed_def sim_read_side_closed_def close_defs machine_defs sim_defs)

lemma Close_read_side_closed_polite:
  "Close_read_side_closed polite [RunWaiter, RunMain, RunWaiter, RunWaiter, SelectResult]
   = Some (Some (Foreign ''file already closed''),
       \<lparr>world = \<lparr>alive = False, in_open = False, out_open = False, reaped = True\<rparr>,
        trace = [ReadCloserClose (Some (Foreign ''file already closed'')),
                 WriteCloserClose None, WaitCall, SignalCall None, WaitReturn None,
                 Send None, Receive None],
        main = M_return None, waiter = G_done, result = [], timer = False\<rparr>)"
  by (simp add: Close_read_side_closed_def sim_read_side_closed_def close_defs machine_defs sim_defs)

lemma sim_start_StdinPipeFails:
  "sim_start StdinPipeFails
   = (Inl (Foreign ''stdin pipe''),
      \<lparr>world = \<lparr>alive = False, in_open = False, out_open = False, reaped = False\<rparr>,
       trace = [StdinPipeCall (Some (Foreign ''stdin pipe''))]\<rparr>)"
  by (simp add: sim_start_def start_defs sim_defs)

lemma sim_start_StdoutPipeFails:
  "sim_start StdoutPipeFails
   = (Inl (Foreign ''stdout pipe''),
      \<lparr>world = \<lparr>alive = False, in_open = False, out_open = False, reaped = False\<rparr>,
       trace = [StdinPipeCall None, StdoutPipeCall (Some (Foreign ''stdout pipe'')),
                InClose None]\<rparr>)"
  by (simp add: sim_start_def start_defs sim_defs call_Close_def)

lemma sim_start_StartFails:
  "sim_start StartFails
   = (Inl (Foreign ''executable file not found''),
      \<lparr>world = \<lparr>alive = False, in_open = False, out_open = False, reaped = False\<rparr>,
       trace = [StdinPipeCall None, StdoutPipeCall None,
                StartCall (Some (Foreign ''executable file not found'')),
                OutClose None, InClose None]\<rparr>)"
  by (simp add: sim_start_def start_defs sim_defs call_Close_def)

lemma sim_start_NoFailure:
  "sim_start NoFailure = (Inr (sim_iop polite), sim_started)"
  by (simp add: sim_start_def start_defs sim_defs)

section \<open>A wait that completes does not decide the select\<close>


section \<open>The wait task\<close>

text \<open>C8, as amended: in every state a run of the shutdown protocol reaches, a goroutine
  that holds the result of \<open>Wait\<close> can send it at once (the channel is empty and takes one
  value), whatever the caller has done, and is then finished; a goroutine inside a \<open>Wait\<close>
  that can return finishes with its next two steps; the channel never holds more than
  one value; the goroutine calls \<open>Wait\<close> once and sends once; a value is received at most
  once, and only the value that was sent; and once the timeout branch is taken the caller
  receives nothing, needs no step of the goroutine, and returns with its next step.
  (Nothing cancels the goroutine: it stays inside \<open>Wait\<close> for as long as \<open>Wait\<close> does not
  return.)\<close>

theorem wait_task_never_blocks:
  assumes run: "exec iop sched (spawn s0) = Some s"
  shows "(\<forall>e. waiter s = G_send e \<longrightarrow>
            (\<exists>s'. step iop RunWaiter s = Some s' \<and> waiter s' = G_done \<and> result s' = [e]
                  \<and> main s' = main s))
       \<and> (\<forall>e w'. waiter s = G_in_Wait \<and> Wait (proc iop) (world s) = Some (e, w') \<longrightarrow>
            (\<exists>s'. exec iop [RunWaiter, RunWaiter] s = Some s' \<and> waiter s' = G_done
                  \<and> main s' = main s))
       \<and> length (result s) \<le> 1
       \<and> (\<exists>e. waiter_events (protocol_events s0 s)
                \<in> {[], [WaitCall], [WaitCall, WaitReturn e], [WaitCall, WaitReturn e, Send e]})
       \<and> (\<forall>r. Receive r \<in> set (protocol_events s0 s) \<longrightarrow>
              main_events (protocol_events s0 s) = [SignalCall None, Receive r]
              \<and> Send r \<in> set (protocol_events s0 s))
       \<and> (Timeout \<in> set (protocol_events s0 s) \<longrightarrow>
              (\<forall>r. Receive r \<notin> set (protocol_events s0 s))
              \<and> (main s = M_kill \<and> (\<exists>s' r. step iop RunMain s = Some s' \<and> main s' = M_return r)
                 \<or> (\<exists>r. main s = M_return r)))"
proof -
  let ?evs = "protocol_events s0 s"
  note m = reached_facts(3) [OF run] and w = reached_facts(4) [OF run]
  have a: "\<forall>e. waiter s = G_send e \<longrightarrow>
            (\<exists>s'. step iop RunWaiter s = Some s' \<and> waiter s' = G_done \<and> result s' = [e]
                  \<and> main s' = main s)"
    using w by (auto simp: waiter_ok_def waiter_step_def)
  have f: "\<forall>e w'. waiter s = G_in_Wait \<and> Wait (proc iop) (world s) = Some (e, w') \<longrightarrow>
            (\<exists>s'. exec iop [RunWaiter, RunWaiter] s = Some s' \<and> waiter s' = G_done
                  \<and> main s' = main s)"
    using w by (auto simp: waiter_ok_def waiter_step_def)
  have b: "length (result s) \<le> 1"
    using w by (cases "waiter s") (auto simp: waiter_ok_def)
  have c: "\<exists>e. waiter_events ?evs
                \<in> {[], [WaitCall], [WaitCall, WaitReturn e], [WaitCall, WaitReturn e, Send e]}"
    using w by (cases "waiter s") (auto simp: waiter_ok_def)
  have d: "\<forall>r. Receive r \<in> set ?evs \<longrightarrow>
              main_events ?evs = [SignalCall None, Receive r] \<and> Send r \<in> set ?evs"
  proof (intro allI impI)
    fix r assume "Receive r \<in> set ?evs"
    then have t: "Receive r \<in> set (main_events ?evs)" by (simp add: in_main_events [symmetric])
    with m have mev: "main_events ?evs = [SignalCall None, Receive r]"
      by (cases "main s") (auto simp: main_ok_def)
    have "\<not> no_receive (main_events ?evs)" using t by (auto simp: no_receive_def)
    with w mev have "Send r \<in> set (waiter_events ?evs)"
      by (cases "waiter s") (auto simp: waiter_ok_def)
    then have "Send r \<in> set ?evs" by (simp add: in_waiter_events [symmetric])
    with mev show "main_events ?evs = [SignalCall None, Receive r] \<and> Send r \<in> set ?evs" by simp
  qed
  have e: "Timeout \<in> set ?evs \<longrightarrow>
              (\<forall>r. Receive r \<notin> set ?evs)
              \<and> (main s = M_kill \<and> (\<exists>s' r. step iop RunMain s = Some s' \<and> main s' = M_return r)
                 \<or> (\<exists>r. main s = M_return r))"
  proof
    assume "Timeout \<in> set ?evs"
    then have t: "Timeout \<in> set (main_events ?evs)" by (simp add: in_main_events [symmetric])
    have nr: "\<forall>r. Receive r \<notin> set ?evs"
    proof
      fix r
      from d t show "Receive r \<notin> set ?evs" by auto
    qed
    from m t have "main s = M_kill \<or> (\<exists>r. main s = M_return r)"
      by (cases "main s") (auto simp: main_ok_def)
    with kill_returns [of s iop] nr
    show "(\<forall>r. Receive r \<notin> set ?evs)
              \<and> (main s = M_kill \<and> (\<exists>s' r. step iop RunMain s = Some s' \<and> main s' = M_return r)
                 \<or> (\<exists>r. main s = M_return r))" by blast
  qed
  from a f b c d e show ?thesis by blast
qed

text \<open>The theorem on three runs: a child whose exit is seen only after the timeout branch
  was taken (the goroutine still delivers its result), a child that exits in time, and
  a child that has just been interrupted (the goroutine is inside \<open>Wait\<close>, which can
  return).\<close>

theorem wait_task_never_blocks_witness:
  "late_wait_run \<noteq> None
   \<and> Timeout \<in> set (protocol_events sim_started (the late_wait_run))
   \<and> waiter (the late_wait_run) = G_send None
   \<and> map_option waiter (step (sim_iop polite) RunWaiter (the late_wait_run)) = Some G_done
   \<and> map_option result (step (sim_iop polite) RunWaiter (the late_wait_run)) = Some [None]
   \<and> exit_run \<noteq> None
   \<and> Receive None \<in> set (protocol_events sim_started (the exit_run))
   \<and> Send None \<in> set (protocol_events sim_started (the exit_run))
   \<and> signalled_run \<noteq> None
   \<and> waiter (the signalled_run) = G_in_Wait
   \<and> Wait (proc (sim_iop polite)) (world (the signalled_run))
       = Some (None, \<lparr>alive = False, in_open = True, out_open = True, reaped = True\<rparr>)
   \<and> map_option waiter (exec (sim_iop polite) [RunWaiter, RunWaiter] (the signalled_run))
       = Some G_done"
proof -
  have r1: "exec (sim_iop polite)
       [RunMain, FireTimer, SelectTimeout, RunWaiter, RunWaiter, RunMain]
       (spawn sim_started) = Some (the late_wait_run)"
    using late_wait_run_eq by (simp add: late_wait_run_def)
  have r2: "exec (sim_iop polite) [RunWaiter, RunMain, RunWaiter, RunWaiter, SelectResult]
             (spawn sim_started) = Some (the exit_run)"
    using exit_run_eq by (simp add: exit_run_def)
  have r3: "exec (sim_iop polite) [RunWaiter, RunMain] (spawn sim_started)
              = Some (the signalled_run)"
    using signalled_run_eq by (simp add: signalled_run_def)
  have g: "waiter (the late_wait_run) = G_send None" by (simp add: late_wait_run_eq)
  have t: "Timeout \<in> set (protocol_events sim_started (the late_wait_run))"
    by (simp add: late_wait_run_eq protocol_events_def sim_started_def)
  have rc: "Receive None \<in> set (protocol_events sim_started (the exit_run))"
    by (simp add: exit_run_eq protocol_events_def sim_started_def)
  have g3: "waiter (the signalled_run) = G_in_Wait" by (simp add: signalled_run_eq)
  have w3: "Wait (proc (sim_iop polite)) (world (the signalled_run))
       = Some (None, \<lparr>alive = False, in_open = True, out_open = True, reaped = True\<rparr>)"
    unfolding signalled_run_eq by (simp add: sim_defs)
  from wait_task_never_blocks [OF r1] g
  have 1: "\<exists>s'. step (sim_iop polite) RunWaiter (the late_wait_run) = Some s'
            \<and> waiter s' = G_done \<and> result s' = [None]" by blast
  from wait_task_never_blocks [OF r2] rc
  have 2: "Send None \<in> set (protocol_events sim_started (the exit_run))" by blast
  from wait_task_never_blocks [OF r3] g3 w3
  have 3: "\<exists>s'. exec (sim_iop polite) [RunWaiter, RunWaiter] (the signalled_run) = Some s'
          \<and> waiter s' = G_done" by blast
  have a: "late_wait_run \<noteq> None \<and> exit_run \<noteq> None \<and> signalled_run \<noteq> None"
    by (simp add: late_wait_run_eq exit_run_eq signalled_run_eq)
  from 1 2 3 a g t rc g3 w3 show ?thesis by auto
qed

text \<open>C8 as stated fails: a child that ignores the interrupt and cannot be killed. The
  caller has returned the error of the failed kill, the child is still running, the
  goroutine is inside \<open>Wait\<close>, which cannot return, and no step of the machine is left:
  the goroutine is never finished.\<close>

theorem wait_task_left_in_Wait:
  "timeout_run unkillable \<noteq> None
   \<and> main (the (timeout_run unkillable))
       = M_return (Some (FmtErrorf ''error killing process after timeout: operation not permitted''))
   \<and> alive (world (the (timeout_run unkillable)))
   \<and> waiter (the (timeout_run unkillable)) = G_in_Wait
   \<and> Wait (proc (sim_iop unkillable)) (world (the (timeout_run unkillable))) = None
   \<and> step (sim_iop unkillable) RunMain (the (timeout_run unkillable)) = None
   \<and> step (sim_iop unkillable) SelectResult (the (timeout_run unkillable)) = None
   \<and> step (sim_iop unkillable) SelectTimeout (the (timeout_run unkillable)) = None
   \<and> step (sim_iop unkillable) RunWaiter (the (timeout_run unkillable)) = None
   \<and> step (sim_iop unkillable) FireTimer (the (timeout_run unkillable)) = None"
  unfolding timeout_run_unkillable
  by (simp add: machine_defs sim_defs)


section \<open>ioPipe.Close and start\<close>

text \<open>C2: a call of \<open>ioPipe.Close\<close> that returns has closed the read side, then the write
  side in the world the first close left, whatever the first close returned, and then
  run the shutdown protocol in the world the second close left (the protocol's events,
  the signal among them, follow the two closes in the trace); it returns the error of
  the protocol if that is not nil, else the error of the write side if that is not nil,
  else the error of the read side, which is nil when every step succeeded.\<close>

theorem Close_order_and_last_error:
  assumes "Close iop sched s0 = Some (r, s)"
  shows "\<exists>rerr w1 werr w2 procErr evs.
           ReadCloser iop (world s0) = (rerr, w1)
         \<and> WriteCloser iop w1 = (werr, w2)
         \<and> closeProc iop sched
              \<lparr>world = w2, trace = trace s0 @ [ReadCloserClose rerr, WriteCloserClose werr]\<rparr>
              = Some (procErr, s)
         \<and> trace s = trace s0 @ [ReadCloserClose rerr, WriteCloserClose werr] @ evs
         \<and> (\<forall>e \<in> set evs. is_main_event e \<or> is_waiter_event e)
         \<and> (\<exists>e. SignalCall e \<in> set evs)
         \<and> r = (if procErr \<noteq> None then procErr else if werr \<noteq> None then werr else rerr)"
proof -
  obtain rerr w1 where rc: "ReadCloser iop (world s0) = (rerr, w1)"
    by (cases "ReadCloser iop (world s0)") simp
  obtain werr w2 where wc: "WriteCloser iop w1 = (werr, w2)"
    by (cases "WriteCloser iop w1") simp
  let ?s2 = "\<lparr>world = w2, trace = trace s0 @ [ReadCloserClose rerr, WriteCloserClose werr]\<rparr>"
  have cs: "close_streams iop s0 = (if werr \<noteq> None then werr else rerr, ?s2)"
    using rc wc by (simp add: close_streams_eq)
  from assms cs obtain procErr where cp: "closeProc iop sched ?s2 = Some (procErr, s)"
    and r: "r = (if procErr \<noteq> None then procErr else if werr \<noteq> None then werr else rerr)"
    by (auto simp: Close_eq split: option.splits)
  note ex = closeProc_SomeD [OF cp]
  let ?evs = "protocol_events ?s2 s"
  have tr: "trace s = trace s0 @ [ReadCloserClose rerr, WriteCloserClose werr] @ ?evs"
    using reached_facts(1) [OF ex(1)] by simp
  have ev: "\<forall>e \<in> set ?evs. is_main_event e \<or> is_waiter_event e"
    using reached_facts(2) [OF ex(1)] .
  have sg: "\<exists>e. SignalCall e \<in> set ?evs"
    using returned_has_signal [OF ex] .
  from rc wc cp tr ev sg r show ?thesis by blast
qed

text \<open>The theorem on a channel whose read side is already closed: with a child that is
  killed after the timeout the result is the error of the protocol, with a child that
  exits in time it is the error of the read side.\<close>

theorem Close_order_and_last_error_witness:
  "map_option fst (Close_read_side_closed stubborn [RunMain, FireTimer, SelectTimeout, RunMain])
     = Some (Some errProcStopTimeout)
   \<and> map_option (trace \<circ> snd)
        (Close_read_side_closed stubborn [RunMain, FireTimer, SelectTimeout, RunMain])
     = Some [ReadCloserClose (Some (Foreign ''file already closed'')), WriteCloserClose None,
             SignalCall None, Timeout, KillCall None]
   \<and> map_option fst
        (Close_read_side_closed polite [RunWaiter, RunMain, RunWaiter, RunWaiter, SelectResult])
     = Some (Some (Foreign ''file already closed''))
   \<and> map_option (trace \<circ> snd)
        (Close_read_side_closed polite [RunWaiter, RunMain, RunWaiter, RunWaiter, SelectResult])
     = Some [ReadCloserClose (Some (Foreign ''file already closed'')), WriteCloserClose None,
             WaitCall, SignalCall None, WaitReturn None, Send None, Receive None]"
proof -
  note a = Close_read_side_closed_stubborn [unfolded Close_read_side_closed_def]
    and b = Close_read_side_closed_polite [unfolded Close_read_side_closed_def]
  from Close_order_and_last_error [OF a] Close_order_and_last_error [OF b]
  show ?thesis
    by (simp add: Close_read_side_closed_stubborn Close_read_side_closed_polite)
qed

text \<open>C7: what \<open>start\<close> returns and leaves behind, by the first step that fails. When
  \<open>StdinPipe\<close> fails, the error and no channel, and nothing is closed; when \<open>StdoutPipe\<close>
  fails, the error and no channel, after closing the stdin pipe; when \<open>Start\<close> fails, the
  error and no channel, after closing the stdout pipe and then the stdin pipe; and when
  nothing fails, the channel, with nothing closed.\<close>

theorem start_failure_closes_acquired_pipes:
  assumes "start cmd p s0 = (r, s)"
  shows "case StdinPipe cmd (world s0) of
           (Inl e, w1) \<Rightarrow>
             r = Inl e \<and> s = \<lparr>world = w1, trace = trace s0 @ [StdinPipeCall (Some e)]\<rparr>
         | (Inr inp, w1) \<Rightarrow>
             (case StdoutPipe cmd w1 of
                (Inl e, w2) \<Rightarrow>
                  r = Inl e
                  \<and> s = \<lparr>world = snd (inp w2),
                         trace = trace s0 @ [StdinPipeCall None, StdoutPipeCall (Some e),
                                            InClose (fst (inp w2))]\<rparr>
              | (Inr out, w2) \<Rightarrow>
                  (case Start cmd w2 of
                     (Some e, w3) \<Rightarrow>
                       r = Inl e
                       \<and> s = \<lparr>world = snd (inp (snd (out w3))),
                              trace = trace s0 @ [StdinPipeCall None, StdoutPipeCall None,
                                                 StartCall (Some e), OutClose (fst (out w3)),
                                                 InClose (fst (inp (snd (out w3))))]\<rparr>
                   | (None, w3) \<Rightarrow>
                       r = Inr \<lparr>ReadCloser = out, WriteCloser = inp, proc = p\<rparr>
                       \<and> s = \<lparr>world = w3,
                              trace = trace s0 @ [StdinPipeCall None, StdoutPipeCall None,
                                                 StartCall None]\<rparr>))"
  using assms
  by (auto simp: start_def call_Pipe_def call_Start_def call_Close_def deferred_Close_def Let_def
      split: prod.splits sum.splits option.splits)

text \<open>The theorem on the simulated command, once for each step that can fail.\<close>

theorem start_failure_closes_acquired_pipes_witness:
  "sim_start StdinPipeFails
     = (Inl (Foreign ''stdin pipe''),
        \<lparr>world = sim_init, trace = [StdinPipeCall (Some (Foreign ''stdin pipe''))]\<rparr>)
   \<and> sim_start StdoutPipeFails
     = (Inl (Foreign ''stdout pipe''),
        \<lparr>world = sim_init,
         trace = [StdinPipeCall None, StdoutPipeCall (Some (Foreign ''stdout pipe'')),
                  InClose None]\<rparr>)
   \<and> sim_start StartFails
     = (Inl (Foreign ''executable file not found''),
        \<lparr>world = sim_init,
         trace = [StdinPipeCall None, StdoutPipeCall None,
                  StartCall (Some (Foreign ''executable file not found'')),
                  OutClose None, InClose None]\<rparr>)
   \<and> fst (sim_start NoFailure) = Inr (sim_iop polite)
   \<and> trace (snd (sim_start NoFailure)) = [StdinPipeCall None, StdoutPipeCall None, StartCall None]"
proof -
  have w: "\<And>f. start (sim_commander f) (sim_proc polite) \<lparr>world = sim_init, trace = []\<rparr>
             = (fst (sim_start f), snd (sim_start f))"
    by (simp add: sim_start_def)
  from start_failure_closes_acquired_pipes [OF w [of StdinPipeFails]]
    start_failure_closes_acquired_pipes [OF w [of StdoutPipeFails]]
    start_failure_closes_acquired_pipes [OF w [of StartFails]]
    start_failure_closes_acquired_pipes [OF w [of NoFailure]]
  show ?thesis
    by (simp add: sim_start_StdinPipeFails sim_start_StdoutPipeFails sim_start_StartFails
        sim_start_NoFailure sim_init_def sim_started_def)
qed

section \<open>The handle in a launched channel\<close>

lemma start_keeps_proc:
  assumes "start cmd p s0 = (Inr iop, s)"
  shows "proc iop = p"
  using assms
  by (auto simp: start_def Let_def split: prod.splits sum.splits option.splits)

lemma makeCommand_eq:
  "makeCommand lib w path args w0 =
     ((Cmd_commander lib (length (cmds w0)), Process_osProcess lib None),
      w0\<lparr>cmds := cmds w0 @ [\<lparr>Path = path, Args = path # args, Stderr = Some w, Process = None\<rparr>]\<rparr>)"
  by (simp add: makeCommand_def exec_Command_def Let_def nth_append)

lemma demo_StartProvider_eq: "demo_StartProvider = (Inr (rpc_NewClient demo_iop), demo_launched)"
  by (simp add: demo_StartProvider_def StartProvider_def makeCommand_eq demo_boot_def
      demo_lib_def demo_iop_def demo_launched_def start_defs Cmd_commander_def)

lemma demo_StartProviderCodec_eq:
  "demo_StartProviderCodec = (Inr (rpc_NewClientWithCodec demo_iop), demo_launched)"
  by (simp add: demo_StartProviderCodec_def StartProviderCodec_def makeCommand_eq demo_boot_def
      demo_lib_def demo_iop_def demo_launched_def start_defs Cmd_commander_def)

lemma demo_StartConsumer_eq:
  "demo_StartConsumer
     = ((\<lparr>server = Some rpc_NewServer, rwc = Some demo_iop\<rparr>, None), demo_launched)"
  by (simp add: demo_StartConsumer_def StartConsumer_def makeCommand_eq demo_boot_def
      demo_lib_def demo_iop_def demo_launched_def start_defs Cmd_commander_def)

text \<open>C10: for every channel that \<open>StartProvider\<close>, \<open>StartProviderCodec\<close> or
  \<open>StartConsumer\<close> produces, whatever the library's methods do, the process handle in the
  channel is the interface value made from the nil \<open>*os.Process\<close> that \<open>makeCommand\<close> read
  from the field \<open>Process\<close> of the new \<open>Cmd\<close> before \<open>Start\<close> was called: the \<open>Wait\<close>,
  \<open>Kill\<close> and \<open>Signal\<close> that the shutdown protocol calls are the library's methods on
  the nil pointer, not on the process \<open>Start\<close> created.\<close>

theorem launched_channel_holds_nil_Process:
  "(StartProvider lib output path args s = (Inr c, s') \<longrightarrow>
      (\<exists>iop. c = rpc_NewClient iop \<and> proc iop = Process_osProcess lib None
         \<and> Wait (proc iop) = Process_Wait lib None
         \<and> Kill (proc iop) = Process_Kill lib None
         \<and> Signal (proc iop) = Process_Signal lib None))
   \<and> (StartProviderCodec lib f output path args s = (Inr c, s') \<longrightarrow>
      (\<exists>iop. c = rpc_NewClientWithCodec (f iop) \<and> proc iop = Process_osProcess lib None
         \<and> Wait (proc iop) = Process_Wait lib None
         \<and> Kill (proc iop) = Process_Kill lib None
         \<and> Signal (proc iop) = Process_Signal lib None))
   \<and> (StartConsumer lib output path args s = ((pr, None), s') \<longrightarrow>
      (\<exists>iop. rwc pr = Some iop \<and> proc iop = Process_osProcess lib None
         \<and> Wait (proc iop) = Process_Wait lib None
         \<and> Kill (proc iop) = Process_Kill lib None
         \<and> Signal (proc iop) = Process_Signal lib None))"
proof -
  let ?w = "(world s)\<lparr>cmds := cmds (world s)
      @ [\<lparr>Path = path, Args = path # args, Stderr = Some output, Process = None\<rparr>]\<rparr>"
  let ?st = "start (Cmd_commander lib (length (cmds (world s)))) (Process_osProcess lib None)
      (s\<lparr>world := ?w\<rparr>)"
  have nil: "\<And>iop t. ?st = (Inr iop, t) \<Longrightarrow> proc iop = Process_osProcess lib None"
    by (rule start_keeps_proc)
  have m: "Wait (Process_osProcess lib None) = Process_Wait lib None"
    "Kill (Process_osProcess lib None) = Process_Kill lib None"
    "Signal (Process_osProcess lib None) = Process_Signal lib None"
    by (simp_all add: Process_osProcess_def)
  have a: "StartProvider lib output path args s = (Inr c, s') \<longrightarrow>
      (\<exists>iop. c = rpc_NewClient iop \<and> proc iop = Process_osProcess lib None
         \<and> Wait (proc iop) = Process_Wait lib None
         \<and> Kill (proc iop) = Process_Kill lib None
         \<and> Signal (proc iop) = Process_Signal lib None)"
    using nil m
    by (cases ?st; cases "fst ?st") (auto simp: StartProvider_def makeCommand_eq)
  have b: "StartProviderCodec lib f output path args s = (Inr c, s') \<longrightarrow>
      (\<exists>iop. c = rpc_NewClientWithCodec (f iop) \<and> proc iop = Process_osProcess lib None
         \<and> Wait (proc iop) = Process_Wait lib None
         \<and> Kill (proc iop) = Process_Kill lib None
         \<and> Signal (proc iop) = Process_Signal lib None)"
    using nil m
    by (cases ?st; cases "fst ?st") (auto simp: StartProviderCodec_def makeCommand_eq)
  have c: "StartConsumer lib output path args s = ((pr, None), s') \<longrightarrow>
      (\<exists>iop. rwc pr = Some iop \<and> proc iop = Process_osProcess lib None
         \<and> Wait (proc iop) = Process_Wait lib None
         \<and> Kill (proc iop) = Process_Kill lib None
         \<and> Signal (proc iop) = Process_Signal lib None)"
    using nil m
    by (cases ?st; cases "fst ?st") (auto simp: StartConsumer_def makeCommand_eq)
  from a b c show ?thesis by blast
qed

text \<open>The theorem on a launch with the library's double: after the launch the \<open>Cmd\<close> in
  the heap holds the handle of the new process, and the channel holds the nil handle.\<close>

theorem launched_channel_holds_nil_Process_witness:
  "demo_StartProvider = (Inr (rpc_NewClient demo_iop), demo_launched)
   \<and> demo_StartProviderCodec = (Inr (rpc_NewClientWithCodec demo_iop), demo_launched)
   \<and> demo_StartConsumer
       = ((\<lparr>server = Some rpc_NewServer, rwc = Some demo_iop\<rparr>, None), demo_launched)
   \<and> map Process (cmds (world demo_launched)) = [Some 4242]
   \<and> proc demo_iop = Process_osProcess demo_lib None
   \<and> Kill (proc demo_iop) = Process_Kill demo_lib None"
proof -
  note a = demo_StartProvider_eq [unfolded demo_StartProvider_def]
    and b = demo_StartProviderCodec_eq [unfolded demo_StartProviderCodec_def]
    and c = demo_StartConsumer_eq [unfolded demo_StartConsumer_def]
  from launched_channel_holds_nil_Process [THEN conjunct1, rule_format, OF a]
    launched_channel_holds_nil_Process [THEN conjunct2, THEN conjunct1, rule_format, OF b]
    launched_channel_holds_nil_Process [THEN conjunct2, THEN conjunct2, rule_format, OF c]
  have "proc demo_iop = Process_osProcess demo_lib None
        \<and> Kill (proc demo_iop) = Process_Kill demo_lib None" by auto
  then show ?thesis
    by (simp add: demo_StartProvider_eq demo_StartProviderCodec_eq demo_StartConsumer_eq
        demo_launched_def Process_osProcess_def)
qed

section \<open>The child after Close\<close>

lemma stopped_inv_step:
  assumes ctl: "controls (proc iop) running"
    and inv: "stopped_inv running t0 s"
    and st: "step iop c s = Some s'"
  shows "stopped_inv running t0 s'"
proof -
  from inv obtain evs where tr: "trace s = t0 @ evs"
    and dead: "exit_seen evs \<longrightarrow> \<not> running (world s)"
    unfolding stopped_inv_def by blast
  from ctl have cw: "\<And>w e w'. Wait (proc iop) w = Some (e, w') \<Longrightarrow> \<not> running w'"
    and ck: "\<And>w e w'. Kill (proc iop) w = (e, w') \<Longrightarrow> e = None \<or> \<not> running w \<Longrightarrow> \<not> running w'"
    and cs: "\<And>w e w'. Signal (proc iop) os_Interrupt w = (e, w') \<Longrightarrow> \<not> running w \<Longrightarrow> \<not> running w'"
    unfolding controls_def by blast+
  show ?thesis
  proof (cases c)
    case RunMain
    show ?thesis
    proof (cases "main s")
      case M_signal
      obtain err w' where sg: "Signal (proc iop) os_Interrupt (world s) = (err, w')"
        by (cases "Signal (proc iop) os_Interrupt (world s)") simp
      from st RunMain M_signal sg have s': "trace s' = t0 @ evs @ [SignalCall err]" "world s' = w'"
        by (auto simp: main_step_def tr)
      have "exit_seen (evs @ [SignalCall err]) \<longrightarrow> \<not> running w'"
        using dead cs [OF sg] by (auto simp: exit_seen_def)
      with s' show ?thesis unfolding stopped_inv_def by auto
    next
      case M_kill
      obtain err w' where kl: "Kill (proc iop) (world s) = (err, w')"
        by (cases "Kill (proc iop) (world s)") simp
      from st RunMain M_kill kl have s': "trace s' = t0 @ evs @ [KillCall err]" "world s' = w'"
        by (auto simp: main_step_def tr)
      have "exit_seen (evs @ [KillCall err]) \<longrightarrow> \<not> running w'"
        using dead ck [OF kl] by (auto simp: exit_seen_def)
      with s' show ?thesis unfolding stopped_inv_def by auto
    next
      case M_select
      with st RunMain show ?thesis by (simp add: main_step_def)
    next
      case (M_return r)
      with st RunMain show ?thesis by (simp add: main_step_def)
    qed
  next
    case SelectResult
    with st obtain err where s': "trace s' = t0 @ evs @ [Receive err]" "world s' = world s"
      by (auto simp: select_result_def tr split: main_pc.splits list.splits)
    have "exit_seen (evs @ [Receive err]) \<longrightarrow> \<not> running (world s)"
      using dead by (auto simp: exit_seen_def)
    with s' show ?thesis unfolding stopped_inv_def by auto
  next
    case SelectTimeout
    with st have s': "trace s' = t0 @ evs @ [Timeout]" "world s' = world s"
      by (auto simp: select_timeout_def tr split: if_splits)
    have "exit_seen (evs @ [Timeout]) \<longrightarrow> \<not> running (world s)"
      using dead by (auto simp: exit_seen_def)
    with s' show ?thesis unfolding stopped_inv_def by auto
  next
    case FireTimer
    with st have s': "trace s' = t0 @ evs" "world s' = world s"
      by (auto simp: fire_timer_def tr split: if_splits)
    with dead show ?thesis unfolding stopped_inv_def by auto
  next
    case RunWaiter
    show ?thesis
    proof (cases "waiter s")
      case G_call
      with st RunWaiter have s': "trace s' = t0 @ evs @ [WaitCall]" "world s' = world s"
        by (auto simp: waiter_step_def tr)
      have "exit_seen (evs @ [WaitCall]) \<longrightarrow> \<not> running (world s)"
        using dead by (auto simp: exit_seen_def)
      with s' show ?thesis unfolding stopped_inv_def by auto
    next
      case G_in_Wait
      with st RunWaiter obtain err w' where wt: "Wait (proc iop) (world s) = Some (err, w')"
        and s': "trace s' = t0 @ evs @ [WaitReturn err]" "world s' = w'"
        by (auto simp: waiter_step_def tr split: option.splits)
      from cw [OF wt] s' show ?thesis unfolding stopped_inv_def by auto
    next
      case (G_send err)
      with st RunWaiter have s': "trace s' = t0 @ evs @ [Send err]" "world s' = world s"
        by (auto simp: waiter_step_def tr split: if_splits)
      have "exit_seen (evs @ [Send err]) \<longrightarrow> \<not> running (world s)"
        using dead by (auto simp: exit_seen_def)
      with s' show ?thesis unfolding stopped_inv_def by auto
    next
      case G_done
      with st RunWaiter show ?thesis by (simp add: waiter_step_def)
    qed
  qed
qed

lemma stopped_inv_exec:
  assumes ctl: "controls (proc iop) running"
  shows "stopped_inv running t0 s \<Longrightarrow> exec iop cs s = Some s' \<Longrightarrow> stopped_inv running t0 s'"
proof (induction cs arbitrary: s)
  case Nil
  then show ?case by simp
next
  case (Cons c cs)
  from Cons.prems(2) obtain s1 where 1: "step iop c s = Some s1" and 2: "exec iop cs s1 = Some s'"
    by (auto split: option.splits)
  from Cons.IH [OF stopped_inv_step [OF ctl Cons.prems(1) 1] 2] show ?case .
qed

lemma stopped_inv_spawn: "stopped_inv running (trace s0) (spawn s0)"
  by (simp add: stopped_inv_def spawn_def exit_seen_def)

lemma closeProc_stops_child:
  assumes ctl: "controls (proc iop) running"
    and cp: "closeProc iop sched s0 = Some (r, s)"
  shows "(\<exists>e. r = Some e \<and> SignalCall (Some e) \<in> set (protocol_events s0 s))
       \<or> (\<exists>e. r = Some (fmt_Errorf_kill e) \<and> KillCall (Some e) \<in> set (protocol_events s0 s))
       \<or> \<not> running (world s)"
proof -
  note ex = closeProc_SomeD [OF cp]
  let ?evs = "protocol_events s0 s"
  from stopped_inv_exec [OF ctl stopped_inv_spawn ex(1)] reached_facts(1) [OF ex(1)]
  have dead: "exit_seen ?evs \<longrightarrow> \<not> running (world s)"
    by (auto simp: stopped_inv_def)
  note m = reached_facts(3) [OF ex(1)] and w = reached_facts(4) [OF ex(1)]
  from m ex(2) consider
      (sig) e where "r = Some e" "main_events ?evs = [SignalCall (Some e)]"
    | (recv) "main_events ?evs = [SignalCall None, Receive r]"
    | (kill) k where "main_events ?evs = [SignalCall None, Timeout, KillCall k]"
        "r = Some (kill_result k)"
    by (auto simp: main_ok_def)
  then show ?thesis
  proof cases
    case sig
    then have "SignalCall (Some e) \<in> set (main_events ?evs)" by simp
    then have "SignalCall (Some e) \<in> set ?evs" by (simp add: in_main_events [symmetric])
    with sig show ?thesis by blast
  next
    case recv
    then have "\<not> no_receive (main_events ?evs)" by (simp add: no_receive_def)
    with w have "WaitReturn r \<in> set (waiter_events ?evs)"
      using recv by (cases "waiter s") (auto simp: waiter_ok_def)
    then have "exit_seen ?evs" by (auto simp: exit_seen_def in_waiter_events [symmetric])
    with dead show ?thesis by simp
  next
    case kill
    then have "KillCall k \<in> set (main_events ?evs)" by simp
    then have k: "KillCall k \<in> set ?evs" by (simp add: in_main_events [symmetric])
    show ?thesis
    proof (cases k)
      case None
      with k have "exit_seen ?evs" by (simp add: exit_seen_def)
      with dead show ?thesis by simp
    next
      case (Some e)
      with kill k show ?thesis by (auto simp: kill_result_def)
    qed
  qed
qed

lemma trace_close_streams:
  "\<exists>a b. trace (snd (close_streams iop s)) = trace s @ [a, b]"
  by (simp add: close_streams_eq Let_def split: prod.splits)

lemma protocol_events_mono:
  assumes "trace s0' = trace s0 @ xs" and "trace s = trace s0' @ evs"
  shows "set (protocol_events s0' s) \<subseteq> set (protocol_events s0 s)"
  using assms by (simp add: protocol_events_def)

lemma sim_controls: "controls (sim_proc b) alive"
  by (auto simp: controls_def sim_proc_def split: if_splits option.splits)

lemma sim_launch_eq: "sim_launch b = (Inr (sim_iop b), sim_started)"
  by (simp add: sim_launch_def start_defs sim_defs)

lemma Close_unsignalled_eq:
  "Close_unsignalled
   = Some (Some (Foreign ''os: unsupported signal type''),
       \<lparr>world = \<lparr>alive = True, in_open = False, out_open = False, reaped = False\<rparr>,
        trace = [StdinPipeCall None, StdoutPipeCall None, StartCall None,
                 ReadCloserClose None, WriteCloserClose None, WaitCall,
                 SignalCall (Some (Foreign ''os: unsupported signal type''))],
        main = M_return (Some (Foreign ''os: unsupported signal type'')),
        waiter = G_in_Wait, result = [], timer = False\<rparr>)"
  by (simp add: Close_unsignalled_def close_defs machine_defs sim_defs)

lemma Close_stubborn_eq:
  "Close_stubborn
   = Some (Some errProcStopTimeout,
       \<lparr>world = \<lparr>alive = False, in_open = False, out_open = False, reaped = False\<rparr>,
        trace = [StdinPipeCall None, StdoutPipeCall None, StartCall None,
                 ReadCloserClose None, WriteCloserClose None, WaitCall,
                 SignalCall None, Timeout, KillCall None],
        main = M_return (Some errProcStopTimeout),
        waiter = G_in_Wait, result = [], timer = True\<rparr>)"
  by (simp add: Close_stubborn_def close_defs machine_defs sim_defs)

text \<open>C1, as amended: for every launch through \<open>start\<close> with a handle that controls the
  child, once \<open>Close\<close> on the returned channel completes, either it returns the error of a
  failed \<open>Signal\<close>, or it returns the error made from a failed \<open>Kill\<close>, or the child is no
  longer running.\<close>

theorem Close_stops_controlled_child:
  assumes launch: "start cmd p s0 = (Inr iop, s1)"
    and ctl: "controls p running"
    and close: "Close iop sched s1 = Some (r, s2)"
  shows "(\<exists>e. r = Some e \<and> SignalCall (Some e) \<in> set (protocol_events s1 s2))
       \<or> (\<exists>e. r = Some (fmt_Errorf_kill e) \<and> KillCall (Some e) \<in> set (protocol_events s1 s2))
       \<or> \<not> running (world s2)"
proof -
  let ?s = "snd (close_streams iop s1)"
  from start_keeps_proc [OF launch] ctl have c: "controls (proc iop) running" by simp
  from close obtain procErr where cp: "closeProc iop sched ?s = Some (procErr, s2)"
    and r: "r = (if procErr \<noteq> None then procErr else fst (close_streams iop s1))"
    by (auto simp: Close_eq split: option.splits)
  from trace_close_streams [of iop s1] obtain a b where t1: "trace ?s = trace s1 @ [a, b]"
    by blast
  note t2 = reached_facts(1) [OF closeProc_SomeD(1) [OF cp]]
  note sub = protocol_events_mono [OF t1 t2]
  from closeProc_stops_child [OF c cp] r sub show ?thesis by auto
qed

text \<open>C1 as stated fails: a child that cannot be signalled is launched, \<open>Close\<close> on the
  channel completes with the error of \<open>Signal\<close>, and the child is still running.\<close>

theorem Close_leaves_child_running:
  "sim_launch unsignalled = (Inr (sim_iop unsignalled), sim_started)
   \<and> Close_unsignalled \<noteq> None
   \<and> fst (the Close_unsignalled) = Some (Foreign ''os: unsupported signal type'')
   \<and> alive (world (snd (the Close_unsignalled)))"
  by (simp add: sim_launch_eq Close_unsignalled_eq)

text \<open>The amended theorem on a child that exits when interrupted and on one that ignores
  the interrupt and is killed.\<close>

theorem Close_stops_controlled_child_witness:
  "sim_launch polite = (Inr (sim_iop polite), sim_started)
   \<and> first_Close \<noteq> None
   \<and> fst (the first_Close) = None
   \<and> \<not> alive (world (snd (the first_Close)))
   \<and> sim_launch stubborn = (Inr (sim_iop stubborn), sim_started)
   \<and> Close_stubborn \<noteq> None
   \<and> fst (the Close_stubborn) = Some errProcStopTimeout
   \<and> \<not> alive (world (snd (the Close_stubborn)))"
proof -
  have l1: "start (sim_commander NoFailure) (sim_proc polite) \<lparr>world = sim_init, trace = []\<rparr>
              = (Inr (sim_iop polite), sim_started)"
    using sim_launch_eq [of polite] by (simp add: sim_launch_def)
  have l2: "start (sim_commander NoFailure) (sim_proc stubborn) \<lparr>world = sim_init, trace = []\<rparr>
              = (Inr (sim_iop stubborn), sim_started)"
    using sim_launch_eq [of stubborn] by (simp add: sim_launch_def)
  have c1: "Close (sim_iop polite) [RunWaiter, RunMain, RunWaiter, RunWaiter, SelectResult]
              sim_started = Some (fst (the first_Close), snd (the first_Close))"
    using first_Close_eq by (simp add: first_Close_def)
  have c2: "Close (sim_iop stubborn) [RunWaiter, RunMain, FireTimer, SelectTimeout, RunMain]
              sim_started = Some (fst (the Close_stubborn), snd (the Close_stubborn))"
    using Close_stubborn_eq by (simp add: Close_stubborn_def)
  from Close_stops_controlled_child [OF l1 sim_controls c1]
  have "\<not> alive (world (snd (the first_Close)))"
    by (simp add: first_Close_eq)
  moreover from Close_stops_controlled_child [OF l2 sim_controls c2]
  have "\<not> alive (world (snd (the Close_stubborn)))"
    by (simp add: Close_stubborn_eq protocol_events_def sim_started_def
        errProcStopTimeout_def fmt_Errorf_kill_def)
  ultimately show ?thesis
    by (simp add: sim_launch_eq first_Close_eq Close_stubborn_eq)
qed

section \<open>Close a second time\<close>




















lemma p_nil_proc_Close_eq: "p_nil_proc_Close = Some Panicked"
  by (simp add: p_nil_proc_Close_def p_Close_def p_call_Close_def p_closeProc_def p_main_step_def
      returning_def spawn_def sim_defs)



end
